theory Spec2Isabelle
  imports Complex_Main
begin

section \<open>Python values, errors and the numpy primitives called by tasks.py\<close>

text \<open>
  The tasks of \<^verbatim>\<open>examples/design_search/tasks.py\<close> are embedded as pure functions.
  Python floats are modelled as reals, so rounding is not part of the model. Exceptions
  are values of the sum type \<open>error + 'a\<close>.
\<close>

datatype error = AssertionError | ValueError | TypeError

text \<open>Keyword arguments are dynamically typed: an int or a float.\<close>

datatype pyval = PyInt int | PyFloat real

fun to_float :: "pyval \<Rightarrow> real" where
  "to_float (PyInt i) = real_of_int i"
| "to_float (PyFloat r) = r"

text \<open>
  \<^verbatim>\<open>np.random.RandomState(seed)\<close> is a deterministic generator: the seed fixes the whole
  sequence of standard-normal variates it will hand out. The generator itself (Mersenne
  Twister and the polar method) is numpy's and is taken as a parameter
  \<open>gauss :: int \<Rightarrow> nat \<Rightarrow> real\<close>: \<open>gauss s i\<close> is the \<open>i\<close>-th standard-normal variate of
  the stream seeded with \<open>s\<close>. A \<open>RandomState\<close> object is such a stream together with
  the number of variates consumed so far. numpy accepts integer seeds from \<open>0\<close> to
  \<open>2^32 - 1\<close> only and raises \<^verbatim>\<open>ValueError\<close> otherwise.
\<close>

record RandomState =
  stream :: "nat \<Rightarrow> real"
  pos :: nat

definition RandomState_init :: "(int \<Rightarrow> nat \<Rightarrow> real) \<Rightarrow> int \<Rightarrow> error + RandomState" where
  "RandomState_init gauss seed_arg =
     (if 0 \<le> seed_arg \<and> seed_arg < 2 ^ 32
      then Inr \<lparr>stream = gauss seed_arg, pos = 0\<rparr>
      else Inl ValueError)"

text \<open>
  \<^verbatim>\<open>rng.normal(loc, scale)\<close> raises \<^verbatim>\<open>ValueError\<close> on a negative scale and otherwise
  returns \<open>loc + scale * z\<close> for the next standard-normal variate \<open>z\<close>.
  With \<^verbatim>\<open>size=n\<close> it does so \<open>n\<close> times in a row.
  The reals have neither a negative zero nor a NaN: numpy tests the sign bit of the scale,
  so it also refuses \<^verbatim>\<open>-0.0\<close>, and it lets a NaN through. On every other float the
  guard \<open>scale < 0\<close> is numpy's. The scale 0 of the model stands for the float \<^verbatim>\<open>0.0\<close>
  with a clear sign bit, as the source produces it (\<^verbatim>\<open>torque_std=0.0\<close>, \<^verbatim>\<open>0.01 * 0\<close>,
  \<^verbatim>\<open>min(0.015 * 0, 0.1)\<close>).
\<close>

definition normal :: "RandomState \<Rightarrow> real \<Rightarrow> real \<Rightarrow> error + (real \<times> RandomState)" where
  "normal rs loc scale =
     (if scale < 0 then Inl ValueError
      else Inr (loc + scale * stream rs (pos rs), rs\<lparr>pos := pos rs + 1\<rparr>))"

fun normal_size :: "RandomState \<Rightarrow> real \<Rightarrow> real \<Rightarrow> nat \<Rightarrow> error + (real list \<times> RandomState)" where
  "normal_size rs loc scale 0 = (if scale < 0 then Inl ValueError else Inr ([], rs))"
| "normal_size rs loc scale (Suc n) =
     (case normal rs loc scale of
        Inl e \<Rightarrow> Inl e
      | Inr (v, rs') \<Rightarrow>
          (case normal_size rs' loc scale n of
             Inl e \<Rightarrow> Inl e
           | Inr (vs, rs'') \<Rightarrow> Inr (v # vs, rs'')))"

text \<open>A two-dimensional \<^verbatim>\<open>size=(rows, cols)\<close> fills the array row by row.\<close>

definition reshape :: "nat \<Rightarrow> nat \<Rightarrow> 'a list \<Rightarrow> 'a list list" where
  "reshape rows cols xs = map (\<lambda>i. take cols (drop (i * cols) xs)) [0..<rows]"

definition normal_size2 ::
  "RandomState \<Rightarrow> real \<Rightarrow> real \<Rightarrow> nat \<Rightarrow> nat \<Rightarrow> error + (real list list \<times> RandomState)" where
  "normal_size2 rs loc scale rows cols =
     (case normal_size rs loc scale (rows * cols) of
        Inl e \<Rightarrow> Inl e
      | Inr (vs, rs') \<Rightarrow> Inr (reshape rows cols vs, rs'))"

text \<open>\<^verbatim>\<open>np.arange(start, stop, step)\<close> has \<open>ceil((stop - start) / step)\<close> elements.\<close>

definition arange :: "real \<Rightarrow> real \<Rightarrow> real \<Rightarrow> real list" where
  "arange start stop step =
     map (\<lambda>i. start + real i * step) [0..<nat \<lceil>(stop - start) / step\<rceil>]"

text \<open>
  \<^verbatim>\<open>np.linspace(start, stop, num)\<close> with the default \<^verbatim>\<open>endpoint=True\<close>: \<open>num\<close> samples
  with step \<open>(stop - start) / (num - 1)\<close>, the last one overwritten with \<open>stop\<close>;
  a single sample is \<open>start\<close>.
\<close>

definition linspace :: "real \<Rightarrow> real \<Rightarrow> nat \<Rightarrow> real list" where
  "linspace start stop num =
     (let d = num - 1;
          delta = stop - start;
          y = (if 0 < d then map (\<lambda>i. real i * (delta / real d) + start) [0..<num]
               else map (\<lambda>i. real i * delta + start) [0..<num])
      in if 1 < num then y[num - 1 := stop] else y)"

definition clip :: "real \<Rightarrow> real \<Rightarrow> real \<Rightarrow> real" where
  "clip x lo hi = min (max x lo) hi"

section \<open>The simulator interface (pyrobotdesign)\<close>

datatype PropShape = BOX | HEIGHTFIELD

text \<open>
  \<^verbatim>\<open>rd.Prop(shape, density, friction, half_extents)\<close>; the colour is an attribute that
  stays at the library's default (\<open>None\<close> here) unless the task assigns it.
\<close>

record Prop =
  shape :: PropShape
  density :: real
  friction :: real
  half_extents :: "real list"
  color :: "real list option"

definition Prop_init :: "PropShape \<Rightarrow> real \<Rightarrow> real \<Rightarrow> real list \<Rightarrow> Prop" where
  "Prop_init sh d f he =
     \<lparr>shape = sh, density = d, friction = f, half_extents = he, color = None\<rparr>"

text \<open>\<^verbatim>\<open>rd.HeightfieldProp(friction, half_extents, heightfield)\<close>.\<close>

record HeightfieldProp =
  hf_friction :: real
  hf_half_extents :: "real list"
  hf_heights :: "real list list"

datatype scene_prop = BoxProp Prop | FieldProp HeightfieldProp

datatype Quaterniond = Quaterniond real real real real

text \<open>
  The simulation handle is external. Its model records what the task does to it: the
  props inserted, in order, and the forces and torques applied, in order.
\<close>

record Simulation =
  robot_count :: int
  props :: "(scene_prop \<times> real list \<times> Quaterniond) list"
  link_force_torques :: "(nat \<times> nat \<times> real list \<times> real list) list"

definition get_robot_count :: "Simulation \<Rightarrow> int" where
  "get_robot_count sim = robot_count sim"

definition add_prop :: "Simulation \<Rightarrow> scene_prop \<Rightarrow> real list \<Rightarrow> Quaterniond \<Rightarrow> Simulation" where
  "add_prop sim p position orientation =
     sim\<lparr>props := props sim @ [(p, position, orientation)]\<rparr>"

definition add_link_force_torque ::
  "Simulation \<Rightarrow> nat \<Rightarrow> nat \<Rightarrow> real list \<Rightarrow> real list \<Rightarrow> Simulation" where
  "add_link_force_torque sim robot_idx link_idx force torque =
     sim\<lparr>link_force_torques := link_force_torques sim @ [(robot_idx, link_idx, force, torque)]\<rparr>"

record DotProductObjective =
  base_dir_weight :: "real list"
  base_up_weight :: "real list"
  base_vel_weight :: "real list"

section \<open>ForwardSpeedTask\<close>

record ForwardSpeedTask =
  time_step :: pyval
  discount_factor :: pyval
  interval :: pyval
  horizon :: pyval
  episode_len :: pyval
  noise_seed :: pyval
  force_std :: pyval
  torque_std :: pyval
  objective_fn :: DotProductObjective
  result_bound :: real

text \<open>
  The keyword arguments of a constructor call are an association list. The names that
  \<^verbatim>\<open>ForwardSpeedTask.__init__\<close> declares are the only ones it takes; Python raises
  \<^verbatim>\<open>TypeError\<close> for any other keyword.
\<close>

definition param_names :: "string list" where
  "param_names = [''time_step'', ''discount_factor'', ''interval'', ''horizon'',
                  ''episode_len'', ''noise_seed'', ''force_std'', ''torque_std'']"

definition kwarg :: "(string \<times> pyval) list \<Rightarrow> string \<Rightarrow> pyval \<Rightarrow> pyval" where
  "kwarg kw name dflt = (case map_of kw name of None \<Rightarrow> dflt | Some v \<Rightarrow> v)"

definition ForwardSpeedTask_init :: "(string \<times> pyval) list \<Rightarrow> error + ForwardSpeedTask" where
  "ForwardSpeedTask_init kw =
     (if \<exists>k \<in> set (map fst kw). k \<notin> set param_names then Inl TypeError
      else Inr
        \<lparr>time_step = kwarg kw ''time_step'' (PyFloat (1 / 240)),
         discount_factor = kwarg kw ''discount_factor'' (PyFloat 0.99),
         interval = kwarg kw ''interval'' (PyInt 16),
         horizon = kwarg kw ''horizon'' (PyInt 16),
         episode_len = kwarg kw ''episode_len'' (PyInt 128),
         noise_seed = kwarg kw ''noise_seed'' (PyInt 0),
         force_std = kwarg kw ''force_std'' (PyFloat 10),
         torque_std = kwarg kw ''torque_std'' (PyFloat 0),
         objective_fn =
           \<lparr>base_dir_weight = [- 2, 0, 0],
            base_up_weight = [0, 2, 0],
            base_vel_weight = [2, 0, 0]\<rparr>,
         result_bound = 10\<rparr>)"

text \<open>
  The subclasses form a closed set; each constructor of the datatype carries the base
  object and the attributes its \<^verbatim>\<open>__init__\<close> assigns. The attribute \<^verbatim>\<open>floor\<close> is
  named \<open>floor_prop\<close>, as \<open>floor\<close> is a function of HOL.
\<close>

datatype task =
    FlatTerrainTask (base: ForwardSpeedTask) (floor_prop: Prop)
  | RidgedTerrainTask (base: ForwardSpeedTask) (seed: int) (floor_prop: Prop) (bump: Prop)
  | GapTerrainTask (base: ForwardSpeedTask) (seed: int) (platform_x: "real list")
      (platforms: "Prop list") (floor_x: real) (floor_prop: Prop)
  | SteppedTerrainTask (base: ForwardSpeedTask) (seed: int) (platform_x: "real list")
      (platforms: "Prop list")
  | FrozenLakeTask (base: ForwardSpeedTask) (floor_prop: Prop)
  | HillTerrainTask (base: ForwardSpeedTask) (seed: int) (rng: RandomState)
      (heightfield: HeightfieldProp)

definition get_objective_fn :: "task \<Rightarrow> DotProductObjective" where
  "get_objective_fn t = objective_fn (base t)"

text \<open>
  No method assigns an attribute of the task after construction, and every generator
  used by a hook is local to the call: the hooks take the task and the scene and return
  the scene, or an error.

  \<^verbatim>\<open>add_noise\<close>: the assertion, then a generator seeded with
  \<^verbatim>\<open>noise_seed + time_step_idx\<close> (a float sum is no seed for numpy: \<^verbatim>\<open>TypeError\<close>),
  then the force is drawn before the torque.
\<close>

definition add_noise ::
  "(int \<Rightarrow> nat \<Rightarrow> real) \<Rightarrow> task \<Rightarrow> Simulation \<Rightarrow> int \<Rightarrow> error + Simulation" where
  "add_noise gauss t sim time_step_idx =
     (if get_robot_count sim \<noteq> 1 then Inl AssertionError
      else case noise_seed (base t) of
        PyFloat _ \<Rightarrow> Inl TypeError
      | PyInt n \<Rightarrow>
          (case RandomState_init gauss (n + time_step_idx) of
             Inl e \<Rightarrow> Inl e
           | Inr noise_rng \<Rightarrow>
               (case normal_size noise_rng 0 (to_float (force_std (base t))) 3 of
                  Inl e \<Rightarrow> Inl e
                | Inr (force, noise_rng') \<Rightarrow>
                    (case normal_size noise_rng' 0 (to_float (torque_std (base t))) 3 of
                       Inl e \<Rightarrow> Inl e
                     | Inr (torque, _) \<Rightarrow>
                         Inr (add_link_force_torque sim 0 0 force torque)))))"

section \<open>The constructors of the six terrains\<close>

definition FlatTerrainTask_init :: "(string \<times> pyval) list \<Rightarrow> error + task" where
  "FlatTerrainTask_init kw =
     (case ForwardSpeedTask_init kw of
        Inl e \<Rightarrow> Inl e
      | Inr b \<Rightarrow> Inr (FlatTerrainTask b (Prop_init BOX 0 0.5 [40, 1, 10])))"

definition RidgedTerrainTask_init :: "int \<Rightarrow> (string \<times> pyval) list \<Rightarrow> error + task" where
  "RidgedTerrainTask_init seed_arg kw =
     (case ForwardSpeedTask_init kw of
        Inl e \<Rightarrow> Inl e
      | Inr b \<Rightarrow>
          Inr (RidgedTerrainTask b seed_arg
                 (Prop_init BOX 0 0.5 [20, 1, 10]) (Prop_init BOX 0 0.5 [0.1, 0.2, 10])))"

definition GapTerrainTask_init ::
  "(int \<Rightarrow> nat \<Rightarrow> real) \<Rightarrow> real \<Rightarrow> real \<Rightarrow> int \<Rightarrow> (string \<times> pyval) list \<Rightarrow> error + task" where
  "GapTerrainTask_init gauss x_min x_max seed_arg kw =
     (case ForwardSpeedTask_init kw of
        Inl e \<Rightarrow> Inl e
      | Inr b \<Rightarrow>
          (case RandomState_init gauss seed_arg of
             Inl e \<Rightarrow> Inl e
           | Inr rs \<Rightarrow>
               (let gap_centers0 = arange 0.5 x_max 1 in
                case normal_size rs 0 0.1 (length gap_centers0) of
                  Inl e \<Rightarrow> Inl e
                | Inr (noise, _) \<Rightarrow>
                    (let gap_centers = map2 (+) gap_centers0 noise;
                         gap_widths = linspace 0.1 0.5 (length gap_centers);
                         platform_x_min =
                           [x_min] @ map2 (\<lambda>c w. c + 0.5 * w) gap_centers gap_widths;
                         platform_x_max =
                           map2 (\<lambda>c w. c - 0.5 * w) gap_centers gap_widths @ [x_max];
                         platform_xs =
                           map2 (\<lambda>lo hi. 0.5 * (lo + hi)) platform_x_min platform_x_max;
                         platform_half_widths =
                           map2 (\<lambda>lo hi. 0.5 * (hi - lo)) platform_x_min platform_x_max
                     in Inr (GapTerrainTask b seed_arg platform_xs
                               (map (\<lambda>half_width. Prop_init BOX 0 0.5 [half_width, 1, 10])
                                  platform_half_widths)
                               (0.5 * (x_min + x_max))
                               (Prop_init BOX 0 0.5 [0.5 * (x_max - x_min), 1, 10]))))))"

definition SteppedTerrainTask_init ::
  "(int \<Rightarrow> nat \<Rightarrow> real) \<Rightarrow> real \<Rightarrow> real \<Rightarrow> int \<Rightarrow> (string \<times> pyval) list \<Rightarrow> error + task" where
  "SteppedTerrainTask_init gauss x_min x_max seed_arg kw =
     (case ForwardSpeedTask_init kw of
        Inl e \<Rightarrow> Inl e
      | Inr b \<Rightarrow>
          (case RandomState_init gauss seed_arg of
             Inl e \<Rightarrow> Inl e
           | Inr rs \<Rightarrow>
               (let edge_x0 = arange 0 x_max 0.5 in
                case normal_size rs 0 0.1 (length edge_x0) of
                  Inl e \<Rightarrow> Inl e
                | Inr (noise, _) \<Rightarrow>
                    (let edge_x = map2 (+) edge_x0 noise;
                         platform_x_min = [x_min] @ edge_x;
                         platform_x_max = edge_x @ [x_max];
                         platform_xs =
                           map2 (\<lambda>lo hi. 0.5 * (lo + hi)) platform_x_min platform_x_max;
                         platform_half_widths =
                           map2 (\<lambda>lo hi. 0.5 * (hi - lo)) platform_x_min platform_x_max
                     in Inr (SteppedTerrainTask b seed_arg platform_xs
                               (map (\<lambda>half_width. Prop_init BOX 0 0.5 [half_width, 1, 10])
                                  platform_half_widths))))))"

definition FrozenLakeTask_init :: "(string \<times> pyval) list \<Rightarrow> error + task" where
  "FrozenLakeTask_init kw =
     (case ForwardSpeedTask_init kw of
        Inl e \<Rightarrow> Inl e
      | Inr b \<Rightarrow>
          Inr (FrozenLakeTask b
                 ((Prop_init BOX 0 0.05 [20, 1, 10])\<lparr>color := Some [0.8, 0.9, 1]\<rparr>)))"

definition HillTerrainTask_init ::
  "(int \<Rightarrow> nat \<Rightarrow> real) \<Rightarrow> int \<Rightarrow> (string \<times> pyval) list \<Rightarrow> error + task" where
  "HillTerrainTask_init gauss seed_arg kw =
     (case ForwardSpeedTask_init kw of
        Inl e \<Rightarrow> Inl e
      | Inr b \<Rightarrow>
          (case RandomState_init gauss seed_arg of
             Inl e \<Rightarrow> Inl e
           | Inr rs \<Rightarrow>
               (case normal_size2 rs 0.5 0.125 97 33 of
                  Inl e \<Rightarrow> Inl e
                | Inr (cells, rs') \<Rightarrow>
                    Inr (HillTerrainTask b seed_arg rs'
                           \<lparr>hf_friction = 0.5, hf_half_extents = [30, 0.25, 10],
                            hf_heights = map (map (\<lambda>v. clip v 0 1)) cells\<rparr>))))"

section \<open>add_terrain\<close>

definition identity_orientation :: Quaterniond where
  "identity_orientation = Quaterniond 1 0 0 0"

text \<open>The loop of \<^verbatim>\<open>RidgedTerrainTask.add_terrain\<close> over \<^verbatim>\<open>range(20)\<close>.\<close>

fun ridged_bumps :: "RandomState \<Rightarrow> Prop \<Rightarrow> nat list \<Rightarrow> Simulation \<Rightarrow> error + Simulation" where
  "ridged_bumps rs b [] sim = Inr sim"
| "ridged_bumps rs b (i # is) sim =
     (case normal rs 0.5 0.1 of
        Inl e \<Rightarrow> Inl e
      | Inr (v, rs') \<Rightarrow>
          ridged_bumps rs' b is
            (add_prop sim (BoxProp b) [v + real i, - 0.2 + 0.02 * (real i + 1), 0]
               identity_orientation))"

text \<open>
  The loop of \<^verbatim>\<open>GapTerrainTask.add_terrain\<close> over
  \<^verbatim>\<open>enumerate(zip(self.platform_x, self.platforms))\<close>; \<open>i\<close> is the running index.
\<close>

fun gap_platforms ::
  "RandomState \<Rightarrow> nat \<Rightarrow> (real \<times> Prop) list \<Rightarrow> Simulation \<Rightarrow> error + Simulation" where
  "gap_platforms rs i [] sim = Inr sim"
| "gap_platforms rs i ((x, platform) # rest) sim =
     (case normal rs 0 (0.01 * real i) of
        Inl e \<Rightarrow> Inl e
      | Inr (dy, rs') \<Rightarrow>
          gap_platforms rs' (Suc i) rest
            (add_prop sim (BoxProp platform) [x, - 1 + dy, 0] identity_orientation))"

text \<open>
  The loop of \<^verbatim>\<open>SteppedTerrainTask.add_terrain\<close>: the platform is placed at the
  running height \<open>y\<close>, then \<open>y\<close> is advanced.
\<close>

fun stepped_platforms ::
  "RandomState \<Rightarrow> real \<Rightarrow> nat \<Rightarrow> (real \<times> Prop) list \<Rightarrow> Simulation \<Rightarrow> error + Simulation" where
  "stepped_platforms rs y i [] sim = Inr sim"
| "stepped_platforms rs y i ((x, platform) # rest) sim =
     (case normal rs 0 (min (0.015 * real i) 0.1) of
        Inl e \<Rightarrow> Inl e
      | Inr (dy, rs') \<Rightarrow>
          stepped_platforms rs' (y + dy) (Suc i) rest
            (add_prop sim (BoxProp platform) [x, y, 0] identity_orientation))"

fun add_terrain :: "(int \<Rightarrow> nat \<Rightarrow> real) \<Rightarrow> task \<Rightarrow> Simulation \<Rightarrow> error + Simulation" where
  "add_terrain gauss (FlatTerrainTask b fl) sim =
     Inr (add_prop sim (BoxProp fl) [0, - 1, 0] identity_orientation)"
| "add_terrain gauss (RidgedTerrainTask b s fl bp) sim =
     (case RandomState_init gauss s of
        Inl e \<Rightarrow> Inl e
      | Inr rs \<Rightarrow>
          ridged_bumps rs bp [0..<20]
            (add_prop sim (BoxProp fl) [0, - 1, 0] identity_orientation))"
| "add_terrain gauss (GapTerrainTask b s px ps fx fl) sim =
     (case RandomState_init gauss s of
        Inl e \<Rightarrow> Inl e
      | Inr rs \<Rightarrow>
          (case gap_platforms rs 0 (zip px ps) sim of
             Inl e \<Rightarrow> Inl e
           | Inr sim' \<Rightarrow>
               Inr (add_prop sim' (BoxProp fl) [fx, - 2, 0] identity_orientation)))"
| "add_terrain gauss (SteppedTerrainTask b s px ps) sim =
     (case RandomState_init gauss s of
        Inl e \<Rightarrow> Inl e
      | Inr rs \<Rightarrow> stepped_platforms rs (- 1) 0 (zip px ps) sim)"
| "add_terrain gauss (FrozenLakeTask b fl) sim =
     Inr (add_prop sim (BoxProp fl) [0, - 1, 0] identity_orientation)"
| "add_terrain gauss (HillTerrainTask b s r hf) sim =
     Inr (add_prop sim (FieldProp hf) [20, - 0.25, 0] identity_orientation)"

section \<open>Vocabulary of the properties\<close>

text \<open>
  The definitions of this section are not code of \<^verbatim>\<open>tasks.py\<close>: they name the inputs,
  the geometric notions and the closed forms that the statements below speak about.
\<close>

text \<open>Keyword arguments that \<^verbatim>\<open>ForwardSpeedTask.__init__\<close> accepts: every name is one of its parameters.\<close>

definition kwargs_ok :: "(string \<times> pyval) list \<Rightarrow> bool" where
  "kwargs_ok kw = (\<forall>k \<in> set (map fst kw). k \<in> set param_names)"

text \<open>The seeds that numpy accepts.\<close>

definition valid_seed :: "int \<Rightarrow> bool" where
  "valid_seed s = (0 \<le> s \<and> s < 2 ^ 32)"

text \<open>
  Closed forms of what \<^verbatim>\<open>GapTerrainTask.__init__\<close> computes: the number of gaps, the
  perturbed centre of gap \<open>k\<close>, and the left and right end of platform \<open>k\<close>.
\<close>

definition gap_count :: "real \<Rightarrow> nat" where
  "gap_count x_max = nat \<lceil>x_max - 0.5\<rceil>"

definition gap_center :: "(int \<Rightarrow> nat \<Rightarrow> real) \<Rightarrow> int \<Rightarrow> nat \<Rightarrow> real" where
  "gap_center gauss s k = 0.5 + real k + 0.1 * gauss s k"

definition gap_lo :: "(int \<Rightarrow> nat \<Rightarrow> real) \<Rightarrow> real \<Rightarrow> real \<Rightarrow> int \<Rightarrow> nat \<Rightarrow> real" where
  "gap_lo gauss x_min x_max s k =
     (if k = 0 then x_min
      else gap_center gauss s (k - 1) + 0.5 * linspace 0.1 0.5 (gap_count x_max) ! (k - 1))"

definition gap_hi :: "(int \<Rightarrow> nat \<Rightarrow> real) \<Rightarrow> real \<Rightarrow> real \<Rightarrow> int \<Rightarrow> nat \<Rightarrow> real" where
  "gap_hi gauss x_min x_max s k =
     (if k < gap_count x_max
      then gap_center gauss s k - 0.5 * linspace 0.1 0.5 (gap_count x_max) ! k
      else x_max)"

text \<open>
  The box of platform \<open>i\<close> is centred at \<open>platform_x ! i\<close> and its first half-extent is its
  half-width. Its left and right ends are the centre minus and plus the half-width; the
  gap after platform \<open>i\<close> reaches from its right end to the left end of the next one.
\<close>

definition half_width :: "Prop \<Rightarrow> real" where
  "half_width p = half_extents p ! 0"

definition platform_left :: "task \<Rightarrow> nat \<Rightarrow> real" where
  "platform_left t i = platform_x t ! i - half_width (platforms t ! i)"

definition platform_right :: "task \<Rightarrow> nat \<Rightarrow> real" where
  "platform_right t i = platform_x t ! i + half_width (platforms t ! i)"


text \<open>
  Two boxes overlap along x when their centres are closer than the sum of the sizes of
  their half-widths.
\<close>

definition overlap_x :: "task \<Rightarrow> nat \<Rightarrow> nat \<Rightarrow> bool" where
  "overlap_x t i j =
     (\<bar>platform_x t ! i - platform_x t ! j\<bar>
        < \<bar>half_width (platforms t ! i)\<bar> + \<bar>half_width (platforms t ! j)\<bar>)"

text \<open>
  A concrete generator, for evaluating the model at examples. For seed 0 it starts with
  the first twenty standard-normal variates of numpy's \<^verbatim>\<open>RandomState(0)\<close>, to eight
  decimals; everywhere else it is a bounded periodic sequence.
\<close>

definition seed0_variates :: "real list" where
  "seed0_variates =
     [1.76405235, 0.40015721, 0.97873798, 2.2408932, 1.86755799,
      - 0.97727788, 0.95008842, - 0.15135721, - 0.10321885, 0.4105985,
      0.14404357, 1.45427351, 0.76103773, 0.12167502, 0.44386323,
      0.33367433, 1.49407907, - 0.20515826, 0.3130677, - 0.85409574]"

definition sample_gauss :: "int \<Rightarrow> nat \<Rightarrow> real" where
  "sample_gauss s i =
     (if s = 0 \<and> i < length seed0_variates then seed0_variates ! i
      else real_of_int ((s + 7 * int i) mod 11 - 5) / 4)"

text \<open>
  Closed forms of what \<^verbatim>\<open>SteppedTerrainTask.__init__\<close> computes: the number of edges,
  the perturbed edge \<open>k\<close>, and the left and right end of platform \<open>k\<close>.
\<close>

definition step_count :: "real \<Rightarrow> nat" where
  "step_count x_max = nat \<lceil>x_max / 0.5\<rceil>"

definition step_edge :: "(int \<Rightarrow> nat \<Rightarrow> real) \<Rightarrow> int \<Rightarrow> nat \<Rightarrow> real" where
  "step_edge gauss s k = real k * 0.5 + 0.1 * gauss s k"

definition step_lo :: "(int \<Rightarrow> nat \<Rightarrow> real) \<Rightarrow> real \<Rightarrow> real \<Rightarrow> int \<Rightarrow> nat \<Rightarrow> real" where
  "step_lo gauss x_min x_max s k = (if k = 0 then x_min else step_edge gauss s (k - 1))"

definition step_hi :: "(int \<Rightarrow> nat \<Rightarrow> real) \<Rightarrow> real \<Rightarrow> real \<Rightarrow> int \<Rightarrow> nat \<Rightarrow> real" where
  "step_hi gauss x_min x_max s k = (if k < step_count x_max then step_edge gauss s k else x_max)"

text \<open>
  The running height of the stepped terrain: \<open>- 1\<close> at platform 0; the variate drawn
  after platform \<open>i\<close> is placed, with standard deviation \<open>min (0.015 * i) 0.1\<close>, gives
  the height of platform \<open>i + 1\<close>.
\<close>

primrec stepped_height :: "(int \<Rightarrow> nat \<Rightarrow> real) \<Rightarrow> int \<Rightarrow> nat \<Rightarrow> real" where
  "stepped_height gauss s 0 = - 1"
| "stepped_height gauss s (Suc i) =
     stepped_height gauss s i + (0 + min (0.015 * real i) 0.1 * gauss s i)"

text \<open>
  A constructor call: the class and the arguments that its own \<^verbatim>\<open>__init__\<close> declares.
  The remaining keyword arguments go to \<^verbatim>\<open>ForwardSpeedTask.__init__\<close>.
\<close>

datatype task_call =
    FlatCall
  | RidgedCall int
  | GapCall real real int
  | SteppedCall real real int
  | FrozenLakeCall
  | HillCall int

fun construct ::
  "(int \<Rightarrow> nat \<Rightarrow> real) \<Rightarrow> task_call \<Rightarrow> (string \<times> pyval) list \<Rightarrow> error + task" where
  "construct gauss FlatCall kw = FlatTerrainTask_init kw"
| "construct gauss (RidgedCall s) kw = RidgedTerrainTask_init s kw"
| "construct gauss (GapCall x_min x_max s) kw = GapTerrainTask_init gauss x_min x_max s kw"
| "construct gauss (SteppedCall x_min x_max s) kw = SteppedTerrainTask_init gauss x_min x_max s kw"
| "construct gauss FrozenLakeCall kw = FrozenLakeTask_init kw"
| "construct gauss (HillCall s) kw = HillTerrainTask_init gauss s kw"

text \<open>The same task object with the attributes of the base class changed.\<close>

fun update_base :: "(ForwardSpeedTask \<Rightarrow> ForwardSpeedTask) \<Rightarrow> task \<Rightarrow> task" where
  "update_base f (FlatTerrainTask b fl) = FlatTerrainTask (f b) fl"
| "update_base f (RidgedTerrainTask b s fl bp) = RidgedTerrainTask (f b) s fl bp"
| "update_base f (GapTerrainTask b s px ps fx fl) = GapTerrainTask (f b) s px ps fx fl"
| "update_base f (SteppedTerrainTask b s px ps) = SteppedTerrainTask (f b) s px ps"
| "update_base f (FrozenLakeTask b fl) = FrozenLakeTask (f b) fl"
| "update_base f (HillTerrainTask b s r hf) = HillTerrainTask (f b) s r hf"

text \<open>A scene that holds one robot and nothing else.\<close>

definition one_robot :: Simulation where
  "one_robot = \<lparr>robot_count = 1, props = [], link_force_torques = []\<rparr>"

section \<open>Auxiliary lemmas\<close>

text \<open>The draws of a generator in closed form.\<close>

lemma normal_eq: "0 \<le> scale \<Longrightarrow>
   normal rs loc scale = Inr (loc + scale * stream rs (pos rs), rs\<lparr>pos := pos rs + 1\<rparr>)"
  by (simp add: normal_def)

lemma normal_size_neg: "scale < 0 \<Longrightarrow> normal_size rs loc scale n = Inl ValueError"
  by (cases n) (simp_all add: normal_def)

lemma normal_size_eq:
  "0 \<le> scale \<Longrightarrow>
   normal_size rs loc scale n =
     Inr (map (\<lambda>i. loc + scale * stream rs (pos rs + i)) [0..<n], rs\<lparr>pos := pos rs + n\<rparr>)"
proof (induction n arbitrary: rs)
  case 0
  then show ?case by simp
next
  case (Suc n)
  have "normal_size (rs\<lparr>pos := pos rs + 1\<rparr>) loc scale n =
     Inr (map (\<lambda>i. loc + scale * stream rs (pos rs + 1 + i)) [0..<n], rs\<lparr>pos := pos rs + 1 + n\<rparr>)"
    using Suc.IH [OF Suc.prems, of "rs\<lparr>pos := pos rs + 1\<rparr>"] by simp
  then show ?case
    using Suc.prems by (simp add: normal_eq map_upt_Suc del: upt_Suc)
qed

text \<open>The three loops of \<^verbatim>\<open>add_terrain\<close> in closed form: each appends one prop per element.\<close>

lemma gap_platforms_eq:
  "gap_platforms rs i xs sim =
     Inr (sim\<lparr>props := props sim @
            map (\<lambda>j. (BoxProp (snd (xs ! j)),
                   [fst (xs ! j), - 1 + 0.01 * real (i + j) * stream rs (pos rs + j), 0],
                   identity_orientation))
              [0..<length xs]\<rparr>)"
proof (induction xs arbitrary: rs i sim)
  case Nil
  then show ?case by simp
next
  case (Cons a xs)
  obtain x p where a: "a = (x, p)" by (cases a)
  show ?case
    unfolding a
    by (simp add: normal_eq Cons.IH add_prop_def map_upt_Suc del: upt_Suc)
qed

lemma stepped_platforms_eq:
  "stepped_platforms rs y i xs sim =
     Inr (sim\<lparr>props := props sim @
            map (\<lambda>k. (BoxProp (snd (xs ! k)),
                   [fst (xs ! k),
                    y + (\<Sum>j<k. min (0.015 * real (i + j)) 0.1 * stream rs (pos rs + j)), 0],
                   identity_orientation))
              [0..<length xs]\<rparr>)"
proof (induction xs arbitrary: rs y i sim)
  case Nil
  then show ?case by simp
next
  case (Cons a xs)
  obtain x p where a: "a = (x, p)" by (cases a)
  have nonneg: "\<not> min (0.015 * real i) 0.1 < (0::real)" by (simp add: min_def)
  show ?case
    unfolding a
    using nonneg
    by (simp add: normal_def Cons.IH add_prop_def map_upt_Suc sum.lessThan_Suc_shift
        add.assoc add.left_commute del: upt_Suc sum.lessThan_Suc)
qed

lemma ridged_bumps_eq:
  "ridged_bumps rs b (map (\<lambda>j. i + j) [0..<n]) sim =
     Inr (sim\<lparr>props := props sim @
            map (\<lambda>j. (BoxProp b,
                   [0.5 + 0.1 * stream rs (pos rs + j) + real (i + j),
                    - 0.2 + 0.02 * (real (i + j) + 1), 0],
                   identity_orientation))
              [0..<n]\<rparr>)"
proof (induction n arbitrary: rs i sim)
  case 0
  then show ?case by simp
next
  case (Suc n)
  note IH = Suc.IH [of _ "Suc i", simplified]
  show ?case
    by (simp add: normal_eq IH add_prop_def map_upt_Suc del: upt_Suc)
qed

text \<open>Facts about \<^verbatim>\<open>arange\<close> and \<^verbatim>\<open>linspace\<close>.\<close>

lemma length_arange: "length (arange a b s) = nat \<lceil>(b - a) / s\<rceil>"
  by (simp add: arange_def)

lemma nth_arange: "i < nat \<lceil>(b - a) / s\<rceil> \<Longrightarrow> arange a b s ! i = a + real i * s"
  by (simp add: arange_def)

lemma length_linspace: "length (linspace a b n) = n"
  by (simp add: linspace_def Let_def)


lemma ForwardSpeedTask_init_ok:
  "kwargs_ok kw \<Longrightarrow> \<exists>b. ForwardSpeedTask_init kw = Inr b \<and> result_bound b = 10"
  by (simp add: ForwardSpeedTask_init_def kwargs_ok_def)

lemma ForwardSpeedTask_init_bad:
  "\<not> kwargs_ok kw \<Longrightarrow> ForwardSpeedTask_init kw = Inl TypeError"
  by (simp add: ForwardSpeedTask_init_def kwargs_ok_def)

lemma RandomState_init_ok:
  "valid_seed s \<Longrightarrow> RandomState_init gauss s = Inr \<lparr>stream = gauss s, pos = 0\<rparr>"
  by (simp add: RandomState_init_def valid_seed_def)

lemma RandomState_init_bad:
  "\<not> valid_seed s \<Longrightarrow> RandomState_init gauss s = Inl ValueError"
  by (simp add: RandomState_init_def valid_seed_def)

lemma map2_upt:
  "map2 f (map g [0..<n]) (map h [0..<n]) = map (\<lambda>i. f (g i) (h i)) [0..<n]"
  by (rule nth_equalityI) simp_all

lemma map2_nth:
  "length xs = n \<Longrightarrow> length ys = n \<Longrightarrow> map2 f xs ys = map (\<lambda>i. f (xs ! i) (ys ! i)) [0..<n]"
  by (rule nth_equalityI) simp_all

lemma cons_map_upt: "a # map f [0..<n] = map (\<lambda>k. if k = 0 then a else f (k - 1)) [0..<Suc n]"
  by (rule nth_equalityI) (auto simp: nth_Cons' nth_append simp del: upt_Suc)

lemma map_upt_snoc: "map f [0..<n] @ [a] = map (\<lambda>k. if k < n then f k else a) [0..<Suc n]"
  by (rule nth_equalityI) (auto simp: nth_append simp del: upt_Suc)

text \<open>What the constructor of the gap terrain returns.\<close>

lemma GapTerrainTask_init_eq:
  assumes "ForwardSpeedTask_init kw = Inr b" and "valid_seed s"
  shows "GapTerrainTask_init gauss x_min x_max s kw =
     Inr (GapTerrainTask b s
            (map (\<lambda>k. 0.5 * (gap_lo gauss x_min x_max s k + gap_hi gauss x_min x_max s k))
               [0..<Suc (gap_count x_max)])
            (map (\<lambda>k. Prop_init BOX 0 0.5
                    [0.5 * (gap_hi gauss x_min x_max s k - gap_lo gauss x_min x_max s k), 1, 10])
               [0..<Suc (gap_count x_max)])
            (0.5 * (x_min + x_max))
            (Prop_init BOX 0 0.5 [0.5 * (x_max - x_min), 1, 10]))"
proof -
  define n where "n = gap_count x_max"
  have len: "length (arange 0.5 x_max 1) = n"
    by (simp add: length_arange n_def gap_count_def)
  have ar: "\<And>i. i < n \<Longrightarrow> arange (1 / 2) x_max 1 ! i = 1 / 2 + real i"
    using nth_arange [of _ x_max "1 / 2" 1] by (simp add: n_def gap_count_def)
  have n: "nat \<lceil>x_max - 1 / 2\<rceil> = n"
    by (simp add: n_def gap_count_def)
  show ?thesis
    unfolding GapTerrainTask_init_def n_def [symmetric]
    using assms len
    apply (simp add: RandomState_init_ok normal_size_eq Let_def del: upt_Suc)
    apply (intro conjI nth_equalityI)
       apply (simp_all add: length_linspace del: upt_Suc)
     apply (auto simp: nth_Cons' nth_append gap_lo_def gap_hi_def gap_center_def
        length_linspace ar n gap_count_def simp del: upt_Suc)
    done
qed


lemma chain_le:
  fixes L H :: "nat \<Rightarrow> real"
  assumes "\<And>k. k \<le> n \<Longrightarrow> L k \<le> H k" and "\<And>k. k < n \<Longrightarrow> H k \<le> L (Suc k)"
  shows "i < j \<Longrightarrow> j \<le> n \<Longrightarrow> H i \<le> L j"
proof (induction j)
  case 0
  then show ?case by simp
next
  case (Suc j)
  show ?case
  proof (cases "i = j")
    case True
    with Suc.prems assms(2) [of j] show ?thesis by simp
  next
    case False
    with Suc.prems have "H i \<le> L j" using Suc.IH by simp
    also have "L j \<le> H j" using assms(1) [of j] Suc.prems by simp
    also have "H j \<le> L (Suc j)" using assms(2) [of j] Suc.prems by simp
    finally show ?thesis .
  qed
qed

text \<open>The ends of the platforms of a task whose two lists are given by edge functions.\<close>

lemma edges_of_maps:
  assumes px: "platform_x t = map (\<lambda>k. 0.5 * (L k + H k)) [0..<Suc n]"
    and ps: "platforms t = map (\<lambda>k. Prop_init BOX 0 0.5 [0.5 * (H k - L k), 1, 10]) [0..<Suc n]"
    and k: "k \<le> n"
  shows "platform_left t k = L k" and "platform_right t k = H k"
    and "half_width (platforms t ! k) = 0.5 * (H k - L k)"
    and "platform_x t ! k = 0.5 * (L k + H k)"
proof -
  have lt: "k < Suc n" using k by simp
  have x: "platform_x t ! k = 0.5 * (L k + H k)"
    using lt by (simp add: px del: upt_Suc)
  have p: "platforms t ! k = Prop_init BOX 0 0.5 [0.5 * (H k - L k), 1, 10]"
    using lt by (simp add: ps del: upt_Suc)
  show "platform_x t ! k = 0.5 * (L k + H k)" by (rule x)
  show "half_width (platforms t ! k) = 0.5 * (H k - L k)"
    by (simp add: p half_width_def Prop_init_def)
  show "platform_left t k = L k"
    by (simp add: platform_left_def x p half_width_def Prop_init_def field_simps)
  show "platform_right t k = H k"
    by (simp add: platform_right_def x p half_width_def Prop_init_def field_simps)
qed

lemma no_overlap_of_order:
  assumes px: "platform_x t = map (\<lambda>k. 0.5 * (L k + H k)) [0..<Suc n]"
    and ps: "platforms t = map (\<lambda>k. Prop_init BOX 0 0.5 [0.5 * (H k - L k), 1, 10]) [0..<Suc n]"
    and i: "i \<le> n" and j: "j \<le> n"
    and "L i \<le> H i" "L j \<le> H j" "H i \<le> L j"
  shows "\<not> overlap_x t i j"
  using assms(5-7)
  by (simp add: overlap_x_def edges_of_maps(3,4) [OF px ps i] edges_of_maps(3,4) [OF px ps j]
      abs_if field_simps)

lemma sum_widths_of_maps:
  assumes ps: "platforms t = map (\<lambda>k. Prop_init BOX 0 0.5 [0.5 * (H k - L k), 1, 10]) [0..<Suc n]"
  shows "(\<Sum>p\<leftarrow>platforms t. 2 * half_width p) = (\<Sum>k<Suc n. H k - L k)"
proof -
  have w: "2 * half_width (Prop_init BOX 0 0.5 [0.5 * (H k - L k), 1, 10]) = H k - L k" for k
    by (simp add: half_width_def Prop_init_def)
  have "(\<Sum>p\<leftarrow>platforms t. 2 * half_width p) = sum_list (map (\<lambda>k. H k - L k) [0..<Suc n])"
    unfolding ps map_map comp_def w ..
  also have "\<dots> = (\<Sum>k<Suc n. H k - L k)"
    by (simp add: interv_sum_list_conv_sum_set_nat atLeast0LessThan del: upt_Suc)
  finally show ?thesis .
qed











lemma length_arange_step: "length (arange 0 x_max 0.5) = step_count x_max"
  by (simp add: length_arange step_count_def)

text \<open>What the constructor of the stepped terrain returns.\<close>

lemma SteppedTerrainTask_init_eq:
  assumes "ForwardSpeedTask_init kw = Inr b" and "valid_seed s"
  shows "SteppedTerrainTask_init gauss x_min x_max s kw =
     Inr (SteppedTerrainTask b s
            (map (\<lambda>k. 0.5 * (step_lo gauss x_min x_max s k + step_hi gauss x_min x_max s k))
               [0..<Suc (step_count x_max)])
            (map (\<lambda>k. Prop_init BOX 0 0.5
                    [0.5 * (step_hi gauss x_min x_max s k - step_lo gauss x_min x_max s k), 1, 10])
               [0..<Suc (step_count x_max)]))"
proof -
  define n where "n = step_count x_max"
  have len: "length (arange 0 x_max 0.5) = n"
    unfolding n_def by (rule length_arange_step)
  have ar: "\<And>i. i < n \<Longrightarrow> arange 0 x_max (1 / 2) ! i = real i * (1 / 2)"
    using nth_arange [of _ x_max 0 "1 / 2"] by (simp add: n_def step_count_def)
  have n: "nat \<lceil>x_max * 2\<rceil> = n"
    by (simp add: n_def step_count_def)
  show ?thesis
    unfolding SteppedTerrainTask_init_def n_def [symmetric]
    using assms len
    apply (simp add: RandomState_init_ok normal_size_eq Let_def del: upt_Suc)
    apply (intro conjI nth_equalityI)
       apply (simp_all del: upt_Suc)
     apply (auto simp: nth_Cons' nth_append step_lo_def step_hi_def step_edge_def
        ar n step_count_def simp del: upt_Suc)
    done
qed

lemma step_total:
  "(\<Sum>k<Suc (step_count x_max). step_hi gauss x_min x_max s k - step_lo gauss x_min x_max s k)
     = x_max - x_min"
proof -
  define n where "n = step_count x_max"
  have hi: "(\<Sum>k<Suc n. step_hi gauss x_min x_max s k) = (\<Sum>k<n. step_edge gauss s k) + x_max"
    by (simp add: step_hi_def n_def [symmetric])
  have lo: "(\<Sum>k<Suc n. step_lo gauss x_min x_max s k) = x_min + (\<Sum>k<n. step_edge gauss s k)"
    by (simp add: sum.lessThan_Suc_shift step_lo_def del: sum.lessThan_Suc)
  show ?thesis
    unfolding n_def [symmetric] sum_subtractf hi lo by simp
qed

lemma step_contiguous:
  "k < step_count x_max \<Longrightarrow>
     step_hi gauss x_min x_max s k = step_lo gauss x_min x_max s (Suc k)"
  by (simp add: step_hi_def step_lo_def)

lemma step_sorted_proper:
  assumes srt: "sorted ([x_min] @ map (step_edge gauss s) [0..<step_count x_max] @ [x_max])"
    and k: "k \<le> step_count x_max"
  shows "step_lo gauss x_min x_max s k \<le> step_hi gauss x_min x_max s k"
proof -
  define n where "n = step_count x_max"
  define E where "E = [x_min] @ map (step_edge gauss s) [0..<n] @ [x_max]"
  have len: "length E = n + 2" by (simp add: E_def)
  have lo: "E ! k = step_lo gauss x_min x_max s k"
    using k by (auto simp: E_def n_def step_lo_def nth_Cons' nth_append)
  have hi: "E ! Suc k = step_hi gauss x_min x_max s k"
    using k by (auto simp: E_def n_def step_hi_def nth_append)
  have "E ! k \<le> E ! Suc k"
    using srt k len unfolding E_def [symmetric] n_def [symmetric]
    by (intro sorted_nth_mono) simp_all
  then show ?thesis by (simp add: lo hi)
qed

lemma stepped_height_sum:
  "stepped_height gauss s k = - 1 + (\<Sum>j<k. min (0.015 * real j) 0.1 * gauss s j)"
  by (induction k) simp_all

lemma add_terrain_Stepped:
  assumes "valid_seed s"
  shows "add_terrain gauss (SteppedTerrainTask b s px ps) sim =
     Inr (sim\<lparr>props := props sim @
            map (\<lambda>k. (BoxProp (ps ! k), [px ! k, stepped_height gauss s k, 0],
                       identity_orientation))
              [0..<min (length px) (length ps)]\<rparr>)"
  using assms
  by (simp add: RandomState_init_ok stepped_platforms_eq stepped_height_sum)

lemma add_terrain_Gap:
  assumes "valid_seed s"
  shows "add_terrain gauss (GapTerrainTask b s px ps fx fl) sim =
     Inr (sim\<lparr>props := props sim @
            map (\<lambda>k. (BoxProp (ps ! k), [px ! k, - 1 + (0 + 0.01 * real k * gauss s k), 0],
                       identity_orientation))
              [0..<min (length px) (length ps)] @
            [(BoxProp fl, [fx, - 2, 0], identity_orientation)]\<rparr>)"
  using assms
  by (simp add: RandomState_init_ok gap_platforms_eq add_prop_def)

lemma add_terrain_Ridged:
  assumes "valid_seed s"
  shows "add_terrain gauss (RidgedTerrainTask b s fl bp) sim =
     Inr (sim\<lparr>props := props sim @
            (BoxProp fl, [0, - 1, 0], identity_orientation) #
            map (\<lambda>j. (BoxProp bp,
                   [0.5 + 0.1 * gauss s j + real j, - 0.2 + 0.02 * (real j + 1), 0],
                   identity_orientation))
              [0..<20]\<rparr>)"
  using assms ridged_bumps_eq [of _ bp 0 20]
  by (simp add: RandomState_init_ok add_prop_def del: upt.simps)

lemma step_count_20: "step_count 20 = 40"
  by (simp add: step_count_def)

lemma kwargs_ok_Nil: "kwargs_ok []"
  by (simp add: kwargs_ok_def)

lemma valid_seed_0: "valid_seed 0"
  by (simp add: valid_seed_def)

lemma sample_gauss_0_0: "sample_gauss 0 0 = 1.76405235"
  by (simp add: sample_gauss_def seed0_variates_def)

lemma sample_gauss_0_1: "sample_gauss 0 (Suc 0) = 0.40015721"
  by (simp add: sample_gauss_def seed0_variates_def)

lemma std_bound_monotone:
  "0 \<le> min (0.015 * real i) (0.1::real) \<and>
   min (0.015 * real i) (0.1::real) \<le> min (0.015 * real (Suc i)) 0.1 \<and>
   min (0.015 * real i) (0.1::real) \<le> 0.1"
  by (simp add: min_def)

lemma length_reshape: "length (reshape r c xs) = r"
  by (simp add: reshape_def)

lemma nth_reshape:
  assumes "length xs = r * c" and "i < r"
  shows "length (reshape r c xs ! i) = c"
    and "j < c \<Longrightarrow> reshape r c xs ! i ! j = xs ! (i * c + j)"
proof -
  have "Suc i \<le> r" using assms(2) by simp
  then have "Suc i * c \<le> r * c" by (rule mult_le_mono1)
  then have le: "c \<le> r * c - i * c" by simp
  show "length (reshape r c xs ! i) = c"
    using assms le by (simp add: reshape_def)
  show "reshape r c xs ! i ! j = xs ! (i * c + j)" if "j < c"
    using assms le that by (simp add: reshape_def)
qed

lemma clip_bounds: "lo \<le> hi \<Longrightarrow> lo \<le> clip x lo hi \<and> clip x lo hi \<le> hi"
  by (simp add: clip_def)

lemma base_update_base: "base (update_base f t) = f (base t)"
  by (cases t) simp_all

lemma add_terrain_update_base: "add_terrain gauss (update_base f t) sim = add_terrain gauss t sim"
  by (cases t) simp_all

text \<open>The props that a call inserts do not depend on the scene they are inserted into.\<close>

lemma add_terrain_appends:
  assumes "add_terrain gauss t sim = Inr sim'"
  shows "\<exists>placed. props sim' = props sim @ placed \<and>
           (\<forall>sim2. add_terrain gauss t sim2 = Inr (sim2\<lparr>props := props sim2 @ placed\<rparr>))"
proof (cases t)
  case (FlatTerrainTask b fl)
  with assms show ?thesis by (auto simp: add_prop_def)
next
  case (RidgedTerrainTask b s fl bp)
  with assms have s: "valid_seed s"
    by (cases "valid_seed s") (simp_all add: RandomState_init_bad)
  show ?thesis
    using assms unfolding RidgedTerrainTask add_terrain_Ridged [OF s] by auto
next
  case (GapTerrainTask b s px ps fx fl)
  with assms have s: "valid_seed s"
    by (cases "valid_seed s") (simp_all add: RandomState_init_bad)
  show ?thesis
    using assms unfolding GapTerrainTask add_terrain_Gap [OF s] by auto
next
  case (SteppedTerrainTask b s px ps)
  with assms have s: "valid_seed s"
    by (cases "valid_seed s") (simp_all add: RandomState_init_bad)
  show ?thesis
    using assms unfolding SteppedTerrainTask add_terrain_Stepped [OF s] by auto
next
  case (FrozenLakeTask b fl)
  with assms show ?thesis by (auto simp: add_prop_def)
next
  case (HillTerrainTask b s r hf)
  with assms show ?thesis by (auto simp: add_prop_def)
qed

text \<open>Two calls of one constructor with the same arguments of its own differ in the base only.\<close>

lemma construct_same_call:
  assumes "construct gauss c kw1 = Inr t1" and "construct gauss c kw2 = Inr t2"
  shows "t2 = update_base (\<lambda>_. base t2) t1"
proof (cases c)
  case FlatCall
  with assms show ?thesis
    by (auto simp: FlatTerrainTask_init_def split: sum.splits)
next
  case (RidgedCall s)
  with assms show ?thesis
    by (auto simp: RidgedTerrainTask_init_def split: sum.splits)
next
  case (GapCall x_min x_max s)
  with assms show ?thesis
    by (auto simp: GapTerrainTask_init_def Let_def split: sum.splits prod.splits)
next
  case (SteppedCall x_min x_max s)
  with assms show ?thesis
    by (auto simp: SteppedTerrainTask_init_def Let_def split: sum.splits prod.splits)
next
  case FrozenLakeCall
  with assms show ?thesis
    by (auto simp: FrozenLakeTask_init_def split: sum.splits)
next
  case (HillCall s)
  with assms show ?thesis
    by (auto simp: HillTerrainTask_init_def split: sum.splits prod.splits)
qed

text \<open>The three outcomes of \<^verbatim>\<open>add_noise\<close>.\<close>

lemma add_noise_eq:
  assumes "get_robot_count sim = 1" and "noise_seed (base t) = PyInt n" and "valid_seed (n + k)"
    and "0 \<le> to_float (force_std (base t))" and "0 \<le> to_float (torque_std (base t))"
  shows "add_noise gauss t sim k =
     Inr (sim\<lparr>link_force_torques := link_force_torques sim @
            [(0, 0,
              [0 + to_float (force_std (base t)) * gauss (n + k) 0,
               0 + to_float (force_std (base t)) * gauss (n + k) 1,
               0 + to_float (force_std (base t)) * gauss (n + k) 2],
              [0 + to_float (torque_std (base t)) * gauss (n + k) 3,
               0 + to_float (torque_std (base t)) * gauss (n + k) 4,
               0 + to_float (torque_std (base t)) * gauss (n + k) 5])]\<rparr>)"
proof -
  have three: "[0..<3] = [0, 1, 2]"
    by (simp add: numeral_3_eq_3 upt_rec)
  show ?thesis
    unfolding add_noise_def
    using assms
    by (simp add: RandomState_init_ok normal_size_eq three add_link_force_torque_def)
qed

lemma add_noise_assert: "get_robot_count sim \<noteq> 1 \<Longrightarrow> add_noise gauss t sim k = Inl AssertionError"
  by (simp add: add_noise_def)

lemma add_noise_fails:
  assumes "get_robot_count sim = 1"
    and "\<not> ((\<exists>n. noise_seed (base t) = PyInt n \<and> valid_seed (n + k)) \<and>
            0 \<le> to_float (force_std (base t)) \<and> 0 \<le> to_float (torque_std (base t)))"
  shows "add_noise gauss t sim k = Inl TypeError \<or> add_noise gauss t sim k = Inl ValueError"
proof (cases "noise_seed (base t)")
  case (PyFloat r)
  with assms(1) show ?thesis by (simp add: add_noise_def)
next
  case (PyInt n)
  show ?thesis
  proof (cases "valid_seed (n + k)")
    case False
    with PyInt assms(1) show ?thesis
      by (simp add: add_noise_def RandomState_init_bad)
  next
    case True
    show ?thesis
    proof (cases "0 \<le> to_float (force_std (base t))")
      case False
      with True PyInt assms(1) show ?thesis
        by (simp add: add_noise_def RandomState_init_ok normal_size_neg)
    next
      case f: True
      with True PyInt assms(2) have "to_float (torque_std (base t)) < 0" by auto
      with f True PyInt assms(1) show ?thesis
        by (simp add: add_noise_def RandomState_init_ok normal_size_eq normal_size_neg)
    qed
  qed
qed

lemma ForwardSpeedTask_init_Inr:
  "ForwardSpeedTask_init kw = Inr b \<Longrightarrow> kwargs_ok kw \<and> result_bound b = 10"
  by (auto simp: ForwardSpeedTask_init_def kwargs_ok_def split: if_splits)

lemma construct_base:
  assumes "construct gauss c kw = Inr t"
  shows "ForwardSpeedTask_init kw = Inr (base t)"
proof (cases c)
  case FlatCall
  with assms show ?thesis
    by (auto simp: FlatTerrainTask_init_def split: sum.splits)
next
  case (RidgedCall s)
  with assms show ?thesis
    by (auto simp: RidgedTerrainTask_init_def split: sum.splits)
next
  case (GapCall x_min x_max s)
  with assms show ?thesis
    by (auto simp: GapTerrainTask_init_def Let_def split: sum.splits prod.splits)
next
  case (SteppedCall x_min x_max s)
  with assms show ?thesis
    by (auto simp: SteppedTerrainTask_init_def Let_def split: sum.splits prod.splits)
next
  case FrozenLakeCall
  with assms show ?thesis
    by (auto simp: FrozenLakeTask_init_def split: sum.splits)
next
  case (HillCall s)
  with assms show ?thesis
    by (auto simp: HillTerrainTask_init_def split: sum.splits prod.splits)
qed

lemma construct_bad_kwargs:
  assumes "\<not> kwargs_ok kw"
  shows "construct gauss c kw = Inl TypeError"
  using ForwardSpeedTask_init_bad [OF assms]
  by (cases c)
    (simp_all add: FlatTerrainTask_init_def RidgedTerrainTask_init_def GapTerrainTask_init_def
      SteppedTerrainTask_init_def FrozenLakeTask_init_def HillTerrainTask_init_def)

lemma result_bound_not_param: "''result_bound'' \<in> fst ` set kw \<Longrightarrow> \<not> kwargs_ok kw"
proof
  assume "''result_bound'' \<in> fst ` set kw" and "kwargs_ok kw"
  then have "''result_bound'' \<in> set param_names"
    by (auto simp: kwargs_ok_def)
  then show False by (simp add: param_names_def)
qed

lemma add_noise_update_result_bound:
  "add_noise gauss (update_base (\<lambda>b. b\<lparr>result_bound := r\<rparr>) t) sim k = add_noise gauss t sim k"
proof -
  let ?t = "update_base (\<lambda>b. b\<lparr>result_bound := r\<rparr>) t"
  have eqs: "noise_seed (base ?t) = noise_seed (base t)"
    "force_std (base ?t) = force_std (base t)"
    "torque_std (base ?t) = torque_std (base t)"
    by (simp_all add: base_update_base)
  show ?thesis
    unfolding add_noise_def eqs ..
qed

lemma FlatTerrainTask_init_Nil:
  "FlatTerrainTask_init [] = Inr (FlatTerrainTask
        \<lparr>time_step = PyFloat (1 / 240),
         discount_factor = PyFloat 0.99,
         interval = PyInt 16,
         horizon = PyInt 16,
         episode_len = PyInt 128,
         noise_seed = PyInt 0,
         force_std = PyFloat 10,
         torque_std = PyFloat 0,
         objective_fn =
           \<lparr>base_dir_weight = [- 2, 0, 0],
            base_up_weight = [0, 2, 0],
            base_vel_weight = [2, 0, 0]\<rparr>,
         result_bound = 10\<rparr> (Prop_init BOX 0 0.5 [40, 1, 10]))"
  by (simp add: FlatTerrainTask_init_def ForwardSpeedTask_init_def kwarg_def)

lemma ForwardSpeedTask_init_Nil:
  "ForwardSpeedTask_init [] = Inr
        \<lparr>time_step = PyFloat (1 / 240),
         discount_factor = PyFloat 0.99,
         interval = PyInt 16,
         horizon = PyInt 16,
         episode_len = PyInt 128,
         noise_seed = PyInt 0,
         force_std = PyFloat 10,
         torque_std = PyFloat 0,
         objective_fn =
           \<lparr>base_dir_weight = [- 2, 0, 0],
            base_up_weight = [0, 2, 0],
            base_vel_weight = [2, 0, 0]\<rparr>,
         result_bound = 10\<rparr>"
  by (simp add: ForwardSpeedTask_init_def kwarg_def)

lemma gap_default_constructs:
  assumes "kwargs_ok kw"
  shows "\<exists>t. construct gauss (GapCall (- 20) 20 0) kw = Inr t \<and> seed t = 0 \<and>
           ForwardSpeedTask_init kw = Inr (base t) \<and> (\<exists>b px ps fx fl. t = GapTerrainTask b 0 px ps fx fl)"
proof -
  obtain b where b: "ForwardSpeedTask_init kw = Inr b"
    using ForwardSpeedTask_init_ok [OF assms] by blast
  show ?thesis
    using GapTerrainTask_init_eq [OF b valid_seed_0, of gauss "- 20" 20] b by simp
qed

section \<open>Determinism of terrain and noise\<close>

text \<open>
  Claim C1. Terrain and noise are reproducible.
  \<^item> When \<^verbatim>\<open>add_terrain\<close> succeeds on a scene, it has appended a sequence \<open>placed\<close> of
    props with their placements, and the same task object appends exactly this sequence
    to any other scene \<open>s2\<close>, for instance to the scene that the first call left. This
    holds for every one of the six terrains.
  \<^item> Two task objects made by the same constructor call (same class, same seed, same
    extents), whatever their other keyword arguments, append the same sequence.
  \<^item> Two calls of \<^verbatim>\<open>add_noise\<close> with the same noise seed, the same standard deviations
    and the same step index apply the same force and torque, whatever the scenes hold
    and whatever was applied to them before.
\<close>

theorem terrain_and_noise_deterministic:
  "(add_terrain gauss t s1 = Inr s1' \<longrightarrow>
      (\<exists>placed. s1' = s1\<lparr>props := props s1 @ placed\<rparr> \<and>
         add_terrain gauss t s2 = Inr (s2\<lparr>props := props s2 @ placed\<rparr>))) \<and>
   (construct gauss c kw1 = Inr t1 \<and> construct gauss c kw2 = Inr t2 \<and>
    add_terrain gauss t1 u1 = Inr u1' \<longrightarrow>
      (\<exists>placed. u1' = u1\<lparr>props := props u1 @ placed\<rparr> \<and>
         add_terrain gauss t2 u2 = Inr (u2\<lparr>props := props u2 @ placed\<rparr>))) \<and>
   (noise_seed (base ta) = noise_seed (base tb) \<and>
    force_std (base ta) = force_std (base tb) \<and>
    torque_std (base ta) = torque_std (base tb) \<and>
    add_noise gauss ta a k = Inr a' \<and> get_robot_count b = 1 \<longrightarrow>
      (\<exists>ft. a' = a\<lparr>link_force_torques := link_force_torques a @ [ft]\<rparr> \<and>
         add_noise gauss tb b k = Inr (b\<lparr>link_force_torques := link_force_torques b @ [ft]\<rparr>)))"
proof (intro conjI impI)
  assume h: "add_terrain gauss t s1 = Inr s1'"
  from add_terrain_appends [OF h] obtain placed
    where p: "\<forall>sim2. add_terrain gauss t sim2 = Inr (sim2\<lparr>props := props sim2 @ placed\<rparr>)"
    by blast
  from p h have "s1' = s1\<lparr>props := props s1 @ placed\<rparr>" by simp
  with p show "\<exists>placed. s1' = s1\<lparr>props := props s1 @ placed\<rparr> \<and>
         add_terrain gauss t s2 = Inr (s2\<lparr>props := props s2 @ placed\<rparr>)"
    by blast
next
  assume h: "construct gauss c kw1 = Inr t1 \<and> construct gauss c kw2 = Inr t2 \<and>
    add_terrain gauss t1 u1 = Inr u1'"
  then have "t2 = update_base (\<lambda>_. base t2) t1"
    using construct_same_call by blast
  then have same: "add_terrain gauss t2 u2 = add_terrain gauss t1 u2"
    using add_terrain_update_base [of gauss "\<lambda>_. base t2" t1 u2] by simp
  from h have h1: "add_terrain gauss t1 u1 = Inr u1'" by simp
  from add_terrain_appends [OF h1] obtain placed
    where p: "\<forall>sim2. add_terrain gauss t1 sim2 = Inr (sim2\<lparr>props := props sim2 @ placed\<rparr>)"
    by blast
  from p h1 have "u1' = u1\<lparr>props := props u1 @ placed\<rparr>" by simp
  with p same show "\<exists>placed. u1' = u1\<lparr>props := props u1 @ placed\<rparr> \<and>
         add_terrain gauss t2 u2 = Inr (u2\<lparr>props := props u2 @ placed\<rparr>)"
    by auto
next
  assume h: "noise_seed (base ta) = noise_seed (base tb) \<and>
    force_std (base ta) = force_std (base tb) \<and>
    torque_std (base ta) = torque_std (base tb) \<and>
    add_noise gauss ta a k = Inr a' \<and> get_robot_count b = 1"
  then have ca: "get_robot_count a = 1" and cb: "get_robot_count b = 1"
    using add_noise_assert [of a gauss ta k] by auto
  have ok: "(\<exists>n. noise_seed (base ta) = PyInt n \<and> valid_seed (n + k)) \<and>
         0 \<le> to_float (force_std (base ta)) \<and> 0 \<le> to_float (torque_std (base ta))"
    using add_noise_fails [OF ca, of ta k gauss] h by auto
  then obtain n where n: "noise_seed (base ta) = PyInt n" "valid_seed (n + k)" by blast
  from ok have fa: "0 \<le> to_float (force_std (base ta))"
    and qa: "0 \<le> to_float (torque_std (base ta))" by simp_all
  from h n fa qa have tb: "noise_seed (base tb) = PyInt n"
    "0 \<le> to_float (force_std (base tb))" "0 \<le> to_float (torque_std (base tb))"
    by simp_all
  from h have na: "add_noise gauss ta a k = Inr a'" by simp
  show "\<exists>ft. a' = a\<lparr>link_force_torques := link_force_torques a @ [ft]\<rparr> \<and>
         add_noise gauss tb b k = Inr (b\<lparr>link_force_torques := link_force_torques b @ [ft]\<rparr>)"
    using na h
    unfolding add_noise_eq [OF ca n(1) n(2) fa qa, of gauss]
      add_noise_eq [OF cb tb(1) n(2) tb(2) tb(3), of gauss]
    by auto
qed

text \<open>
  An instance: a default gap terrain is inserted twice in a row and by a second task
  object, and noise is applied twice at step 16.
\<close>

theorem terrain_and_noise_deterministic_witness:
  "\<exists>t1 t2 s1 s2 placed a1 a2 ft.
     construct sample_gauss (GapCall (- 20) 20 0) [] = Inr t1 \<and>
     construct sample_gauss (GapCall (- 20) 20 0) [(''force_std'', PyFloat 5)] = Inr t2 \<and>
     add_terrain sample_gauss t1 one_robot = Inr s1 \<and>
     add_terrain sample_gauss t1 s1 = Inr s2 \<and>
     s1 = one_robot\<lparr>props := props one_robot @ placed\<rparr> \<and>
     s2 = s1\<lparr>props := props s1 @ placed\<rparr> \<and>
     add_terrain sample_gauss t2 one_robot = Inr s1 \<and>
     add_noise sample_gauss t1 one_robot 16 = Inr a1 \<and>
     add_noise sample_gauss t1 a1 16 = Inr a2 \<and>
     a1 = one_robot\<lparr>link_force_torques := link_force_torques one_robot @ [ft]\<rparr> \<and>
     a2 = a1\<lparr>link_force_torques := link_force_torques a1 @ [ft]\<rparr>"
proof -
  have kw2: "kwargs_ok [(''force_std'', PyFloat 5)]"
    by (simp add: kwargs_ok_def param_names_def)
  obtain t1 b px ps fx fl
    where t1: "construct sample_gauss (GapCall (- 20) 20 0) [] = Inr t1"
      and b1: "ForwardSpeedTask_init [] = Inr (base t1)"
      and f1: "t1 = GapTerrainTask b 0 px ps fx fl"
    using gap_default_constructs [OF kwargs_ok_Nil, of sample_gauss] by blast
  obtain t2 where t2: "construct sample_gauss (GapCall (- 20) 20 0) [(''force_std'', PyFloat 5)] = Inr t2"
    using gap_default_constructs [OF kw2, of sample_gauss] by blast
  obtain s1 where s1: "add_terrain sample_gauss t1 one_robot = Inr s1"
    unfolding f1 add_terrain_Gap [OF valid_seed_0] by blast
  have c: "get_robot_count one_robot = 1"
    by (simp add: get_robot_count_def one_robot_def)
  have base1: "noise_seed (base t1) = PyInt 0" "force_std (base t1) = PyFloat 10"
    "torque_std (base t1) = PyFloat 0"
    using b1 unfolding ForwardSpeedTask_init_Nil by (auto dest: sym)
  have "valid_seed (0 + 16)" by (simp add: valid_seed_def)
  then obtain a1 where a1: "add_noise sample_gauss t1 one_robot 16 = Inr a1"
    using add_noise_eq [OF c base1(1), of 16 sample_gauss] by (simp add: base1)
  have c1: "get_robot_count a1 = 1"
    using a1 c add_noise_eq [OF c base1(1), of 16 sample_gauss]
    by (auto simp: base1 valid_seed_def get_robot_count_def)
  note inst = terrain_and_noise_deterministic [where gauss = sample_gauss and t = t1
      and ?s1.0 = one_robot and s1' = s1 and ?s2.0 = s1
      and c = "GapCall (- 20) 20 0" and ?kw1.0 = "[]"
      and ?kw2.0 = "[(''force_std'', PyFloat 5)]" and ?t1.0 = t1 and ?t2.0 = t2
      and ?u1.0 = one_robot and u1' = s1 and ?u2.0 = one_robot
      and ta = t1 and tb = t1 and a = one_robot and a' = a1 and b = a1 and k = 16]
  from inst s1 obtain placed where p: "s1 = one_robot\<lparr>props := props one_robot @ placed\<rparr>"
    and again: "add_terrain sample_gauss t1 s1 = Inr (s1\<lparr>props := props s1 @ placed\<rparr>)"
    by blast
  from inst t1 t2 s1 obtain placed'
    where p': "s1 = one_robot\<lparr>props := props one_robot @ placed'\<rparr>"
      and other: "add_terrain sample_gauss t2 one_robot = Inr (one_robot\<lparr>props := props one_robot @ placed'\<rparr>)"
    by blast
  from inst a1 c1 obtain ft
    where ft: "a1 = one_robot\<lparr>link_force_torques := link_force_torques one_robot @ [ft]\<rparr>"
      and rep: "add_noise sample_gauss t1 a1 16 = Inr (a1\<lparr>link_force_torques := link_force_torques a1 @ [ft]\<rparr>)"
    by blast
  from other p' have other': "add_terrain sample_gauss t2 one_robot = Inr s1" by simp
  show ?thesis
    using t1 t2 s1 again p other' a1 rep ft by blast
qed

section \<open>The perturbation hook\<close>

text \<open>
  Claim C2. In a scene with one robot, with an integer noise seed \<open>n\<close> such that
  \<open>n + k\<close> is a seed numpy accepts, and with non-negative standard deviations,
  \<^verbatim>\<open>add_noise(sim, k)\<close> seeds a fresh generator with \<open>n + k\<close>, draws the three components
  of the force as \<open>0 + force_std * z\<close> from its first three variates, then the three
  components of the torque as \<open>0 + torque_std * z\<close> from the next three, and applies
  exactly this one pair to link 0 of robot 0.
\<close>

theorem add_noise_draws_and_applies:
  assumes "get_robot_count sim = 1" and "noise_seed (base t) = PyInt n"
    and "valid_seed (n + k)"
    and "0 \<le> to_float (force_std (base t))" and "0 \<le> to_float (torque_std (base t))"
  shows "RandomState_init gauss (n + k) = Inr \<lparr>stream = gauss (n + k), pos = 0\<rparr> \<and>
     add_noise gauss t sim k =
       Inr (sim\<lparr>link_force_torques := link_force_torques sim @
              [(0, 0,
                [0 + to_float (force_std (base t)) * gauss (n + k) 0,
                 0 + to_float (force_std (base t)) * gauss (n + k) 1,
                 0 + to_float (force_std (base t)) * gauss (n + k) 2],
                [0 + to_float (torque_std (base t)) * gauss (n + k) 3,
                 0 + to_float (torque_std (base t)) * gauss (n + k) 4,
                 0 + to_float (torque_std (base t)) * gauss (n + k) 5])]\<rparr>)"
  using add_noise_eq [OF assms] RandomState_init_ok [OF assms(3)] by simp

text \<open>
  An instance: a default task at step 16.
\<close>

theorem add_noise_draws_and_applies_witness:
  "get_robot_count one_robot = 1 \<and> valid_seed (0 + 16) \<and>
   add_noise sample_gauss (projr (FlatTerrainTask_init [])) one_robot 16 =
     Inr (one_robot\<lparr>link_force_torques :=
            [(0, 0, [0, - 10, 15 / 2], [0, 0, 0])]\<rparr>)"
proof -
  define t where "t = projr (FlatTerrainTask_init [])"
  have c: "get_robot_count one_robot = 1"
    by (simp add: get_robot_count_def one_robot_def)
  have n: "noise_seed (base t) = PyInt 0"
    and f: "force_std (base t) = PyFloat 10" and q: "torque_std (base t) = PyFloat 0"
    by (simp_all add: t_def FlatTerrainTask_init_Nil)
  have v: "valid_seed (0 + 16)" by (simp add: valid_seed_def)
  have f0: "0 \<le> to_float (force_std (base t))" and q0: "0 \<le> to_float (torque_std (base t))"
    by (simp_all add: f q)
  have g: "sample_gauss 16 0 = 0" "sample_gauss 16 (Suc 0) = - 1" "sample_gauss 16 2 = 3 / 4"
    by (simp_all add: sample_gauss_def)
  from add_noise_draws_and_applies [OF c n v f0 q0, of sample_gauss]
  have "add_noise sample_gauss t one_robot 16 =
     Inr (one_robot\<lparr>link_force_torques := [(0, 0, [0, - 10, 15 / 2], [0, 0, 0])]\<rparr>)"
    by (simp add: f q g one_robot_def)
  then show ?thesis using c v unfolding t_def by simp
qed




section \<open>Gap terrain\<close>



section \<open>Stepped terrain\<close>

text \<open>
  Claim C4 says that the stepped platforms never overlap, for every \<open>x_min\<close>. With
  \<open>x_min = 1\<close>, \<open>x_max = 20\<close> and seed 0 the first edge is \<open>0.1 * 1.76405235\<close>, to the
  left of \<open>x_min\<close>: platform 0 gets a negative half-width, and its box overlaps the box
  of platform 1.
\<close>

theorem stepped_overlap_counterexample:
  "\<not> isl (SteppedTerrainTask_init sample_gauss 1 20 0 []) \<and>
   half_width (platforms (projr (SteppedTerrainTask_init sample_gauss 1 20 0 [])) ! 0) < 0 \<and>
   overlap_x (projr (SteppedTerrainTask_init sample_gauss 1 20 0 [])) 0 1"
proof -
  obtain b where b: "ForwardSpeedTask_init [] = Inr b"
    using ForwardSpeedTask_init_ok [OF kwargs_ok_Nil] by blast
  define L where "L = step_lo sample_gauss 1 20 0"
  define H where "H = step_hi sample_gauss 1 20 0"
  define t where "t = projr (SteppedTerrainTask_init sample_gauss 1 20 0 [])"
  have init: "SteppedTerrainTask_init sample_gauss 1 20 0 [] =
     Inr (SteppedTerrainTask b 0
            (map (\<lambda>k. 0.5 * (L k + H k)) [0..<Suc 40])
            (map (\<lambda>k. Prop_init BOX 0 0.5 [0.5 * (H k - L k), 1, 10]) [0..<Suc 40]))"
    using SteppedTerrainTask_init_eq [OF b valid_seed_0, where gauss = sample_gauss
        and x_min = 1 and x_max = 20]
    by (simp add: step_count_20 L_def H_def del: upt_Suc)
  have px: "platform_x t = map (\<lambda>k. 0.5 * (L k + H k)) [0..<Suc 40]"
    and ps: "platforms t = map (\<lambda>k. Prop_init BOX 0 0.5 [0.5 * (H k - L k), 1, 10]) [0..<Suc 40]"
    unfolding t_def init by simp_all
  have L0: "L 0 = 1" and H0: "H 0 = 0.176405235"
    and L1: "L (Suc 0) = 0.176405235" and H1: "H (Suc 0) = 0.540015721"
    by (simp_all add: L_def H_def step_lo_def step_hi_def step_count_20 step_edge_def
        sample_gauss_0_0 sample_gauss_0_1)
  have "half_width (platforms t ! 0) < 0"
    using edges_of_maps(3) [OF px ps, of 0] by (simp add: L0 H0)
  moreover have "overlap_x t 0 1"
  proof -
    have "platform_x t ! 0 = 0.5 * (1 + 0.176405235)"
      and "half_width (platforms t ! 0) = 0.5 * (0.176405235 - 1)"
      using edges_of_maps(3,4) [OF px ps, of 0] by (simp_all add: L0 H0)
    moreover have "platform_x t ! 1 = 0.5 * (0.176405235 + 0.540015721)"
      and "half_width (platforms t ! 1) = 0.5 * (0.540015721 - 0.176405235)"
      using edges_of_maps(3,4) [OF px ps, of "Suc 0"] by (simp_all add: L1 H1)
    ultimately show ?thesis
      unfolding overlap_x_def by simp
  qed
  moreover have "\<not> isl (SteppedTerrainTask_init sample_gauss 1 20 0 [])"
    by (simp add: init)
  ultimately show ?thesis unfolding t_def by blast
qed

text \<open>
  Claim C4, amended. For every seed that numpy accepts and every \<open>x_min\<close> and \<open>x_max\<close>,
  with \<open>n\<close> the number of edges \<^verbatim>\<open>arange(0, x_max, 0.5)\<close>:
  \<^item> there are \<open>n + 1\<close> platforms; the first begins at \<open>x_min\<close>, the last ends at
    \<open>x_max\<close>, and platform \<open>i\<close> ends where platform \<open>i + 1\<close> begins, at the perturbed
    edge \<open>0.5 * i + 0.1 * z\<^sub>i\<close>; their signed widths add up to \<open>x_max - x_min\<close>;
  \<^item> when \<open>x_min\<close>, the perturbed edges and \<open>x_max\<close> are in non-decreasing order, all
    half-widths are non-negative and no two platforms overlap;
  \<^item> \<^verbatim>\<open>add_terrain\<close> places platform \<open>i\<close> at the running height: \<open>- 1\<close> for platform 0,
    and the height of platform \<open>i + 1\<close> is that of platform \<open>i\<close> plus a variate with
    mean 0 and standard deviation \<open>min (0.015 * i) 0.1\<close>, which is non-negative,
    non-decreasing in \<open>i\<close> and at most \<open>0.1\<close>.
\<close>

theorem stepped_layout:
  assumes kw: "kwargs_ok kw" and s: "valid_seed s"
  shows "\<exists>t. SteppedTerrainTask_init gauss x_min x_max s kw = Inr t \<and>
     (let n = length (arange 0 x_max 0.5) in
        length (platforms t) = n + 1 \<and> length (platform_x t) = n + 1 \<and>
        platform_left t 0 = x_min \<and> platform_right t n = x_max \<and>
        (\<forall>i<n. platform_right t i = platform_left t (Suc i) \<and>
               platform_right t i = real i * 0.5 + 0.1 * gauss s i) \<and>
        (\<Sum>p\<leftarrow>platforms t. 2 * half_width p) = x_max - x_min \<and>
        (sorted ([x_min] @ map (\<lambda>i. real i * 0.5 + 0.1 * gauss s i) [0..<n] @ [x_max]) \<longrightarrow>
           (\<forall>i\<le>n. 0 \<le> half_width (platforms t ! i)) \<and>
           (\<forall>i j. i < j \<and> j \<le> n \<longrightarrow>
              platform_right t i \<le> platform_left t j \<and> \<not> overlap_x t i j)) \<and>
        add_terrain gauss t sim =
          Inr (sim\<lparr>props := props sim @
                 map (\<lambda>i. (BoxProp (platforms t ! i),
                            [platform_x t ! i, stepped_height gauss s i, 0],
                            Quaterniond 1 0 0 0))
                   [0..<n + 1]\<rparr>)) \<and>
     stepped_height gauss s 0 = - 1 \<and>
     (\<forall>i. stepped_height gauss s (Suc i) =
            stepped_height gauss s i + (0 + min (0.015 * real i) 0.1 * gauss s i)) \<and>
     (\<forall>i. 0 \<le> min (0.015 * real i) (0.1::real) \<and>
          min (0.015 * real i) (0.1::real) \<le> min (0.015 * real (Suc i)) 0.1 \<and>
          min (0.015 * real i) (0.1::real) \<le> 0.1)"
proof -
  obtain b where b: "ForwardSpeedTask_init kw = Inr b"
    using ForwardSpeedTask_init_ok [OF kw] by blast
  define n where "n = step_count x_max"
  define L where "L = step_lo gauss x_min x_max s"
  define H where "H = step_hi gauss x_min x_max s"
  define px where "px = map (\<lambda>k. 0.5 * (L k + H k)) [0..<Suc n]"
  define ps where "ps = map (\<lambda>k. Prop_init BOX 0 0.5 [0.5 * (H k - L k), 1, 10]) [0..<Suc n]"
  define t where "t = SteppedTerrainTask b s px ps"
  have init: "SteppedTerrainTask_init gauss x_min x_max s kw = Inr t"
    unfolding t_def px_def ps_def L_def H_def n_def
    by (rule SteppedTerrainTask_init_eq [OF b s])
  have px: "platform_x t = map (\<lambda>k. 0.5 * (L k + H k)) [0..<Suc n]"
    and ps: "platforms t = map (\<lambda>k. Prop_init BOX 0 0.5 [0.5 * (H k - L k), 1, 10]) [0..<Suc n]"
    by (simp_all add: t_def px_def ps_def)
  have len: "length (arange 0 x_max 0.5) = n"
    unfolding n_def by (rule length_arange_step)
  have edge: "real i * 0.5 + 0.1 * gauss s i = step_edge gauss s i" for i
    by (simp add: step_edge_def)
  have l1: "length (platforms t) = n + 1" and l2: "length (platform_x t) = n + 1"
    by (simp_all add: px ps)
  have left0: "platform_left t 0 = x_min"
    using edges_of_maps(1) [OF px ps, of 0] by (simp add: L_def step_lo_def)
  have rightn: "platform_right t n = x_max"
    using edges_of_maps(2) [OF px ps, of n] by (simp add: H_def step_hi_def n_def)
  have contiguous: "platform_right t i = platform_left t (Suc i) \<and>
               platform_right t i = real i * 0.5 + 0.1 * gauss s i" if "i < n" for i
    using edges_of_maps(2) [OF px ps, of i] edges_of_maps(1) [OF px ps, of "Suc i"] that
    by (simp add: L_def H_def step_lo_def step_hi_def n_def [symmetric] step_edge_def)
  have total: "(\<Sum>p\<leftarrow>platforms t. 2 * half_width p) = x_max - x_min"
    using step_total [where x_max = x_max and gauss = gauss and x_min = x_min and s = s]
      sum_widths_of_maps [OF ps]
    by (simp add: L_def H_def n_def del: sum.lessThan_Suc)
  have ordered: "(\<forall>i\<le>n. 0 \<le> half_width (platforms t ! i)) \<and>
           (\<forall>i j. i < j \<and> j \<le> n \<longrightarrow>
              platform_right t i \<le> platform_left t j \<and> \<not> overlap_x t i j)"
    if srt: "sorted ([x_min] @ map (\<lambda>i. real i * 0.5 + 0.1 * gauss s i) [0..<n] @ [x_max])"
  proof -
    have srt': "sorted ([x_min] @ map (step_edge gauss s) [0..<step_count x_max] @ [x_max])"
      using srt unfolding edge n_def by (simp add: step_edge_def [abs_def])
    have proper: "L k \<le> H k" if "k \<le> n" for k
      unfolding L_def H_def using step_sorted_proper [OF srt'] that by (simp add: n_def)
    have touch: "H k \<le> L (Suc k)" if "k < n" for k
      unfolding L_def H_def using step_contiguous [of k x_max gauss x_min s] that
      by (simp add: n_def)
    have le: "H i \<le> L j" if "i < j" "j \<le> n" for i j
      using chain_le [where n = n and L = L and H = H and i = i and j = j] proper touch that
      by simp
    have "0 \<le> half_width (platforms t ! i)" if "i \<le> n" for i
      using edges_of_maps(3) [OF px ps that] proper [OF that] by simp
    moreover have "platform_right t i \<le> platform_left t j \<and> \<not> overlap_x t i j"
      if "i < j \<and> j \<le> n" for i j
    proof -
      from that have i: "i \<le> n" and j: "j \<le> n" and ij: "i < j" by simp_all
      have "H i \<le> L j" using le [OF ij j] .
      moreover from this have "\<not> overlap_x t i j"
        using no_overlap_of_order [OF px ps i j] proper [OF i] proper [OF j] by simp
      ultimately show ?thesis
        using edges_of_maps(2) [OF px ps i] edges_of_maps(1) [OF px ps j] by simp
    qed
    ultimately show ?thesis by blast
  qed
  have terrain: "add_terrain gauss t sim =
          Inr (sim\<lparr>props := props sim @
                 map (\<lambda>i. (BoxProp (platforms t ! i),
                            [platform_x t ! i, stepped_height gauss s i, 0],
                            Quaterniond 1 0 0 0))
                   [0..<n + 1]\<rparr>)"
    using add_terrain_Stepped [OF s, of gauss b px ps sim]
    by (simp add: t_def px_def ps_def identity_orientation_def del: upt_Suc)
  have "let n = length (arange 0 x_max 0.5) in
        length (platforms t) = n + 1 \<and> length (platform_x t) = n + 1 \<and>
        platform_left t 0 = x_min \<and> platform_right t n = x_max \<and>
        (\<forall>i<n. platform_right t i = platform_left t (Suc i) \<and>
               platform_right t i = real i * 0.5 + 0.1 * gauss s i) \<and>
        (\<Sum>p\<leftarrow>platforms t. 2 * half_width p) = x_max - x_min \<and>
        (sorted ([x_min] @ map (\<lambda>i. real i * 0.5 + 0.1 * gauss s i) [0..<n] @ [x_max]) \<longrightarrow>
           (\<forall>i\<le>n. 0 \<le> half_width (platforms t ! i)) \<and>
           (\<forall>i j. i < j \<and> j \<le> n \<longrightarrow>
              platform_right t i \<le> platform_left t j \<and> \<not> overlap_x t i j)) \<and>
        add_terrain gauss t sim =
          Inr (sim\<lparr>props := props sim @
                 map (\<lambda>i. (BoxProp (platforms t ! i),
                            [platform_x t ! i, stepped_height gauss s i, 0],
                            Quaterniond 1 0 0 0))
                   [0..<n + 1]\<rparr>)"
    unfolding Let_def len
    using l1 l2 left0 rightn contiguous total ordered terrain by blast
  moreover have "stepped_height gauss s 0 = - 1" by simp
  moreover have "\<forall>i. stepped_height gauss s (Suc i) =
            stepped_height gauss s i + (0 + min (0.015 * real i) 0.1 * gauss s i)"
    by simp
  ultimately show ?thesis
    using init std_bound_monotone by blast
qed

text \<open>
  An instance: \<open>x_min = - 20\<close>, \<open>x_max = 1\<close>, seed 0, where the two edges are in order.
\<close>

theorem stepped_layout_witness:
  "kwargs_ok [] \<and> valid_seed 0 \<and>
   sorted ([- 20] @ map (\<lambda>i. real i * 0.5 + 0.1 * sample_gauss 0 i) [0..<2] @ [1]) \<and>
   (\<exists>t. SteppedTerrainTask_init sample_gauss (- 20) 1 0 [] = Inr t \<and>
        length (platforms t) = 3 \<and>
        platform_left t 0 = - 20 \<and> platform_right t 2 = 1 \<and>
        platform_right t 1 = platform_left t 2 \<and>
        (\<Sum>p\<leftarrow>platforms t. 2 * half_width p) = 21 \<and>
        0 \<le> half_width (platforms t ! 1) \<and> \<not> overlap_x t 0 2)"
proof -
  have len: "length (arange 0 1 0.5) = 2"
    by (simp add: length_arange)
  have two: "[0..<2] = [0, Suc 0]"
    by (simp add: numeral_2_eq_2 upt_rec)
  have srt: "sorted ([- 20] @ map (\<lambda>i. real i * 0.5 + 0.1 * sample_gauss 0 i) [0..<2] @ [1])"
    unfolding two by (simp add: sample_gauss_0_0 sample_gauss_0_1)
  from stepped_layout [OF kwargs_ok_Nil valid_seed_0, where gauss = sample_gauss
      and x_min = "- 20" and x_max = 1]
  obtain t where t: "SteppedTerrainTask_init sample_gauss (- 20) 1 0 [] = Inr t"
    and l: "length (platforms t) = 2 + 1"
    and e: "platform_left t 0 = - 20" "platform_right t 2 = 1"
    and c: "\<forall>i<2. platform_right t i = platform_left t (Suc i) \<and>
               platform_right t i = real i * 0.5 + 0.1 * sample_gauss 0 i"
    and w: "(\<Sum>p\<leftarrow>platforms t. 2 * half_width p) = 1 - (- 20)"
    and o: "sorted ([- 20] @ map (\<lambda>i. real i * 0.5 + 0.1 * sample_gauss 0 i) [0..<2] @ [1]) \<longrightarrow>
           (\<forall>i\<le>2. 0 \<le> half_width (platforms t ! i)) \<and>
           (\<forall>i j. i < j \<and> j \<le> 2 \<longrightarrow>
              platform_right t i \<le> platform_left t j \<and> \<not> overlap_x t i j)"
    unfolding Let_def len by blast
  have "platform_right t 1 = platform_left t 2" using c by (simp add: numeral_2_eq_2)
  moreover have "0 \<le> half_width (platforms t ! 1)" "\<not> overlap_x t 0 2"
    using o srt by simp_all
  ultimately show ?thesis
    using kwargs_ok_Nil valid_seed_0 srt t l e w by simp
qed

text \<open>
  Claim C10. For every seed that numpy accepts, \<^verbatim>\<open>GapTerrainTask.add_terrain\<close> places
  platform 0 at height exactly \<open>- 1\<close>, and \<^verbatim>\<open>SteppedTerrainTask.add_terrain\<close> places
  platform 0 and, when there is one (\<open>0 < x_max\<close>), platform 1 at height exactly \<open>- 1\<close>:
  the first variate is scaled by the standard deviation 0.
\<close>

theorem first_platforms_at_minus_one:
  assumes kw: "kwargs_ok kw" and s: "valid_seed s"
  shows "(\<exists>t sim'. GapTerrainTask_init gauss x_min x_max s kw = Inr t \<and>
            add_terrain gauss t sim = Inr sim' \<and>
            props sim' ! length (props sim) =
              (BoxProp (platforms t ! 0), [platform_x t ! 0, - 1, 0], Quaterniond 1 0 0 0)) \<and>
         (\<exists>t sim'. SteppedTerrainTask_init gauss x_min x_max s kw = Inr t \<and>
            add_terrain gauss t sim = Inr sim' \<and>
            props sim' ! length (props sim) =
              (BoxProp (platforms t ! 0), [platform_x t ! 0, - 1, 0], Quaterniond 1 0 0 0) \<and>
            (0 < x_max \<longrightarrow>
               length (props sim) + 1 < length (props sim') \<and>
               props sim' ! (length (props sim) + 1) =
                 (BoxProp (platforms t ! 1), [platform_x t ! 1, - 1, 0], Quaterniond 1 0 0 0)))"
proof (rule conjI)
  obtain b where b: "ForwardSpeedTask_init kw = Inr b"
    using ForwardSpeedTask_init_ok [OF kw] by blast
  define n where "n = gap_count x_max"
  define px where "px = map (\<lambda>k. 0.5 * (gap_lo gauss x_min x_max s k + gap_hi gauss x_min x_max s k)) [0..<Suc n]"
  define ps where "ps = map (\<lambda>k. Prop_init BOX 0 0.5
                    [0.5 * (gap_hi gauss x_min x_max s k - gap_lo gauss x_min x_max s k), 1, 10]) [0..<Suc n]"
  define fx where "fx = 0.5 * (x_min + x_max)"
  define fl where "fl = Prop_init BOX 0 0.5 [0.5 * (x_max - x_min), 1, 10]"
  define t where "t = GapTerrainTask b s px ps fx fl"
  define placed where "placed = map (\<lambda>k. (BoxProp (ps ! k), [px ! k, - 1 + (0 + 0.01 * real k * gauss s k), 0],
                       identity_orientation)) [0..<Suc n]"
  have init: "GapTerrainTask_init gauss x_min x_max s kw = Inr t"
    unfolding t_def px_def ps_def fx_def fl_def n_def
    by (rule GapTerrainTask_init_eq [OF b s])
  have lens: "min (length px) (length ps) = Suc n"
    by (simp add: px_def ps_def)
  have terrain: "add_terrain gauss t sim =
      Inr (sim\<lparr>props := props sim @ placed @ [(BoxProp fl, [fx, - 2, 0], identity_orientation)]\<rparr>)"
    unfolding t_def placed_def using add_terrain_Gap [OF s, of gauss b px ps fx fl sim]
    by (simp only: lens)
  have first: "placed ! 0 = (BoxProp (ps ! 0), [px ! 0, - 1, 0], Quaterniond 1 0 0 0)"
    unfolding placed_def by (simp add: identity_orientation_def upt_rec [of 0])
  have "(props sim @ placed @ [(BoxProp fl, [fx, - 2, 0], identity_orientation)]) ! length (props sim)
      = placed ! 0"
    by (simp add: nth_append placed_def del: upt_Suc)
  with first terrain init
  show "\<exists>t sim'. GapTerrainTask_init gauss x_min x_max s kw = Inr t \<and>
            add_terrain gauss t sim = Inr sim' \<and>
            props sim' ! length (props sim) =
              (BoxProp (platforms t ! 0), [platform_x t ! 0, - 1, 0], Quaterniond 1 0 0 0)"
    by (simp add: t_def)
next
  obtain b where b: "ForwardSpeedTask_init kw = Inr b"
    using ForwardSpeedTask_init_ok [OF kw] by blast
  define n where "n = step_count x_max"
  define px where "px = map (\<lambda>k. 0.5 * (step_lo gauss x_min x_max s k + step_hi gauss x_min x_max s k)) [0..<Suc n]"
  define ps where "ps = map (\<lambda>k. Prop_init BOX 0 0.5
                    [0.5 * (step_hi gauss x_min x_max s k - step_lo gauss x_min x_max s k), 1, 10]) [0..<Suc n]"
  define t where "t = SteppedTerrainTask b s px ps"
  define placed where "placed = map (\<lambda>k. (BoxProp (ps ! k), [px ! k, stepped_height gauss s k, 0],
                       identity_orientation)) [0..<Suc n]"
  have init: "SteppedTerrainTask_init gauss x_min x_max s kw = Inr t"
    unfolding t_def px_def ps_def n_def
    by (rule SteppedTerrainTask_init_eq [OF b s])
  have lens: "min (length px) (length ps) = Suc n"
    by (simp add: px_def ps_def)
  have terrain: "add_terrain gauss t sim = Inr (sim\<lparr>props := props sim @ placed\<rparr>)"
    unfolding t_def placed_def using add_terrain_Stepped [OF s, of gauss b px ps sim]
    by (simp only: lens)
  have len: "length placed = Suc n" by (simp add: placed_def)
  have first: "placed ! 0 = (BoxProp (ps ! 0), [px ! 0, - 1, 0], Quaterniond 1 0 0 0)"
    unfolding placed_def by (simp add: identity_orientation_def upt_rec [of 0])
  have second: "placed ! 1 = (BoxProp (ps ! 1), [px ! 1, - 1, 0], Quaterniond 1 0 0 0)"
    if "0 < n"
    unfolding placed_def using that nth_map_upt [of 1 "Suc n" 0]
    by (simp add: identity_orientation_def del: upt_Suc)
  have pos: "0 < n" if "0 < x_max"
    using that by (simp add: n_def step_count_def)
  have a: "(props sim @ placed) ! length (props sim) = placed ! 0"
    by (simp add: nth_append)
  have b': "(props sim @ placed) ! (length (props sim) + 1) = placed ! 1"
    by (simp add: nth_append)
  show "\<exists>t sim'. SteppedTerrainTask_init gauss x_min x_max s kw = Inr t \<and>
            add_terrain gauss t sim = Inr sim' \<and>
            props sim' ! length (props sim) =
              (BoxProp (platforms t ! 0), [platform_x t ! 0, - 1, 0], Quaterniond 1 0 0 0) \<and>
            (0 < x_max \<longrightarrow>
               length (props sim) + 1 < length (props sim') \<and>
               props sim' ! (length (props sim) + 1) =
                 (BoxProp (platforms t ! 1), [platform_x t ! 1, - 1, 0], Quaterniond 1 0 0 0))"
    using init terrain a b' first second pos len
    by (simp add: t_def)
qed

text \<open>
  An instance: the default extents and seed 0.
\<close>

theorem first_platforms_at_minus_one_witness:
  "kwargs_ok [] \<and> valid_seed 0 \<and> (0::real) < 20 \<and>
   (\<exists>t sim'. GapTerrainTask_init sample_gauss (- 20) 20 0 [] = Inr t \<and>
       add_terrain sample_gauss t \<lparr>robot_count = 1, props = [], link_force_torques = []\<rparr> = Inr sim' \<and>
       props sim' ! 0 = (BoxProp (platforms t ! 0), [platform_x t ! 0, - 1, 0], Quaterniond 1 0 0 0)) \<and>
   (\<exists>t sim'. SteppedTerrainTask_init sample_gauss (- 20) 20 0 [] = Inr t \<and>
       add_terrain sample_gauss t \<lparr>robot_count = 1, props = [], link_force_torques = []\<rparr> = Inr sim' \<and>
       props sim' ! 0 = (BoxProp (platforms t ! 0), [platform_x t ! 0, - 1, 0], Quaterniond 1 0 0 0) \<and>
       props sim' ! 1 = (BoxProp (platforms t ! 1), [platform_x t ! 1, - 1, 0], Quaterniond 1 0 0 0))"
  using first_platforms_at_minus_one [OF kwargs_ok_Nil valid_seed_0, where gauss = sample_gauss
      and x_min = "- 20" and x_max = 20
      and sim = "\<lparr>robot_count = 1, props = [], link_force_torques = []\<rparr>"]
    kwargs_ok_Nil valid_seed_0
  by (simp; blast)

section \<open>Hill terrain\<close>

text \<open>
  Claim C5. For every seed that numpy accepts, the constructor of the hill terrain
  builds a grid of 97 rows of 33 cells; cell \<open>(i, j)\<close> is \<open>0.5 + 0.125 * z\<close> for variate
  number \<open>33 * i + j\<close> of the stream, clipped to \<open>[0, 1]\<close>, so every cell lies in
  \<open>[0, 1]\<close>; the grid is held by one height-field prop with friction \<open>0.5\<close> and
  half-extents \<open>[30, 0.25, 10]\<close>; and \<^verbatim>\<open>add_terrain\<close> inserts exactly this prop, at
  \<open>(20, - 0.25, 0)\<close> with the identity orientation.
\<close>

theorem hill_heightfield:
  assumes kw: "kwargs_ok kw" and s: "valid_seed s"
  shows "\<exists>t. HillTerrainTask_init gauss s kw = Inr t \<and>
     hf_friction (heightfield t) = 0.5 \<and>
     hf_half_extents (heightfield t) = [30, 0.25, 10] \<and>
     length (hf_heights (heightfield t)) = 97 \<and>
     (\<forall>row \<in> set (hf_heights (heightfield t)).
        length row = 33 \<and> (\<forall>v \<in> set row. 0 \<le> v \<and> v \<le> 1)) \<and>
     (\<forall>i<97. \<forall>j<33.
        hf_heights (heightfield t) ! i ! j = clip (0.5 + 0.125 * gauss s (i * 33 + j)) 0 1) \<and>
     add_terrain gauss' t sim =
       Inr (sim\<lparr>props := props sim @
              [(FieldProp (heightfield t), [20, - 0.25, 0], Quaterniond 1 0 0 0)]\<rparr>)"
proof -
  obtain b where b: "ForwardSpeedTask_init kw = Inr b"
    using ForwardSpeedTask_init_ok [OF kw] by blast
  define rs where "rs = \<lparr>stream = gauss s, pos = 0\<rparr>"
  define vs where "vs = map (\<lambda>i. 0.5 + 0.125 * gauss s i) [0..<97 * 33]"
  define cells where "cells = map (map (\<lambda>v. clip v 0 1)) (reshape 97 33 vs)"
  define hf where "hf = \<lparr>hf_friction = 0.5, hf_half_extents = [30, 0.25, 10], hf_heights = cells\<rparr>"
  define t where "t = HillTerrainTask b s (rs\<lparr>pos := 97 * 33\<rparr>) hf"
  have draw: "normal_size rs 0.5 0.125 (97 * 33) = Inr (vs, rs\<lparr>pos := 97 * 33\<rparr>)"
    using normal_size_eq [of "0.125" rs "0.5" "97 * 33"]
    by (simp add: rs_def vs_def)
  have init: "HillTerrainTask_init gauss s kw = Inr t"
    unfolding HillTerrainTask_init_def normal_size2_def
    using b RandomState_init_ok [OF s, of gauss] draw
    by (simp only: sum.case prod.case rs_def [symmetric] t_def hf_def cells_def)
  have lvs: "length vs = 97 * 33" by (simp add: vs_def)
  have rows: "length cells = 97" by (simp add: cells_def length_reshape)
  have row_len: "length (cells ! i) = 33" if "i < 97" for i
    using that nth_reshape(1) [OF lvs that] by (simp add: cells_def length_reshape)
  have cell: "cells ! i ! j = clip (0.5 + 0.125 * gauss s (i * 33 + j)) 0 1"
    if "i < 97" "j < 33" for i j
  proof -
    have "i * 33 + j < 97 * 33" using that by simp
    then have "vs ! (i * 33 + j) = 0.5 + 0.125 * gauss s (i * 33 + j)"
      unfolding vs_def using nth_map_upt [of "i * 33 + j" "97 * 33" 0] by simp
    then show ?thesis
      using that nth_reshape [OF lvs that(1)]
      by (simp add: cells_def length_reshape)
  qed
  have in_range: "length row = 33 \<and> (\<forall>v \<in> set row. 0 \<le> v \<and> v \<le> 1)"
    if "row \<in> set cells" for row
  proof -
    from that obtain i where i: "i < 97" and row: "row = cells ! i"
      using rows by (auto simp: in_set_conv_nth)
    have "0 \<le> v \<and> v \<le> 1" if "v \<in> set row" for v
    proof -
      from that obtain j where j: "j < 33" and v: "v = row ! j"
        using row_len [OF i] row by (auto simp: in_set_conv_nth)
      show ?thesis
        unfolding v row cell [OF i j] using clip_bounds [of 0 1] by simp
    qed
    then show ?thesis using row_len [OF i] row by blast
  qed
  have terrain: "add_terrain gauss' t sim =
       Inr (sim\<lparr>props := props sim @
              [(FieldProp (heightfield t), [20, - 0.25, 0], Quaterniond 1 0 0 0)]\<rparr>)"
    by (simp add: t_def add_prop_def identity_orientation_def)
  have hs: "hf_heights (heightfield t) = cells"
    and f: "hf_friction (heightfield t) = 0.5"
    and e: "hf_half_extents (heightfield t) = [30, 0.25, 10]"
    by (simp_all add: t_def hf_def)
  show ?thesis
    using init terrain rows in_range cell f e
    unfolding hs [symmetric] by blast
qed

text \<open>
  An instance: seed 0, with two cells computed.
\<close>

theorem hill_heightfield_witness:
  "kwargs_ok [] \<and> valid_seed 0 \<and>
   (\<exists>t. HillTerrainTask_init sample_gauss 0 [] = Inr t \<and>
      hf_friction (heightfield t) = 0.5 \<and>
      hf_half_extents (heightfield t) = [30, 0.25, 10] \<and>
      length (hf_heights (heightfield t)) = 97 \<and>
      hf_heights (heightfield t) ! 0 ! 0 = 0.72050654375 \<and>
      hf_heights (heightfield t) ! 0 ! 3 = 0.78011165 \<and>
      add_terrain sample_gauss t \<lparr>robot_count = 1, props = [], link_force_torques = []\<rparr> =
        Inr \<lparr>robot_count = 1,
             props = [(FieldProp (heightfield t), [20, - 0.25, 0], Quaterniond 1 0 0 0)],
             link_force_torques = []\<rparr>)"
proof -
  from hill_heightfield [OF kwargs_ok_Nil valid_seed_0, where gauss = sample_gauss
      and gauss' = sample_gauss
      and sim = "\<lparr>robot_count = 1, props = [], link_force_torques = []\<rparr>"]
  obtain t where t: "HillTerrainTask_init sample_gauss 0 [] = Inr t"
      "hf_friction (heightfield t) = 0.5"
      "hf_half_extents (heightfield t) = [30, 0.25, 10]"
      "length (hf_heights (heightfield t)) = 97"
      "\<forall>i<97. \<forall>j<33.
        hf_heights (heightfield t) ! i ! j = clip (0.5 + 0.125 * sample_gauss 0 (i * 33 + j)) 0 1"
      "add_terrain sample_gauss t \<lparr>robot_count = 1, props = [], link_force_torques = []\<rparr> =
       Inr (\<lparr>robot_count = 1, props = [], link_force_torques = []\<rparr>\<lparr>props := props \<lparr>robot_count = 1, props = [], link_force_torques = []\<rparr> @
              [(FieldProp (heightfield t), [20, - 0.25, 0], Quaterniond 1 0 0 0)]\<rparr>)"
    by blast
  have "hf_heights (heightfield t) ! 0 ! 0 = clip (0.5 + 0.125 * sample_gauss 0 0) 0 1"
    using t(5) by simp
  then have a: "hf_heights (heightfield t) ! 0 ! 0 = 0.72050654375"
    by (simp add: sample_gauss_0_0 clip_def)
  have "hf_heights (heightfield t) ! 0 ! 3 = clip (0.5 + 0.125 * sample_gauss 0 3) 0 1"
    using t(5) by simp
  then have b: "hf_heights (heightfield t) ! 0 ! 3 = 0.78011165"
    by (simp add: sample_gauss_def seed0_variates_def clip_def)
  show ?thesis
    using kwargs_ok_Nil valid_seed_0 t(1-4) t(6) a b by simp
qed

section \<open>Flat terrain and frozen lake\<close>

text \<open>
  Claim C6. A \<^verbatim>\<open>FlatTerrainTask\<close> constructed with default parameters inserts, on
  \<^verbatim>\<open>add_terrain\<close>, exactly one prop: a box with half-extents \<open>[40, 1, 10]\<close> and friction
  \<open>0.5\<close>, placed at \<open>(0, - 1, 0)\<close> with the identity quaternion. The result is the same
  for every generator \<open>gauss\<close>: no random variate is drawn.
\<close>

theorem flat_default_terrain:
  "\<exists>t. FlatTerrainTask_init [] = Inr t \<and>
       add_terrain gauss t sim =
         Inr (sim\<lparr>props := props sim @
                [(BoxProp \<lparr>shape = BOX, density = 0, friction = 0.5,
                           half_extents = [40, 1, 10], color = None\<rparr>,
                  [0, - 1, 0], Quaterniond 1 0 0 0)]\<rparr>)"
  by (simp add: FlatTerrainTask_init_def ForwardSpeedTask_init_def add_prop_def
      Prop_init_def identity_orientation_def)

text \<open>
  Claim C7 gives the frozen lake the half-extents \<open>(20, 0.5, 10)\<close>. The constructor
  builds the box with \<open>[20, 1, 10]\<close>.
\<close>

theorem frozen_lake_half_extents_counterexample:
  "\<not> isl (FrozenLakeTask_init []) \<and>
   half_extents (floor_prop (projr (FrozenLakeTask_init []))) = [20, 1, 10] \<and>
   half_extents (floor_prop (projr (FrozenLakeTask_init []))) \<noteq> [20, 0.5, 10]"
  by (simp add: FrozenLakeTask_init_def ForwardSpeedTask_init_def Prop_init_def)

text \<open>
  Claim C7, amended. \<^verbatim>\<open>FrozenLakeTask.add_terrain\<close> inserts a single box at
  \<open>(0, - 1, 0)\<close> with the identity orientation, for every generator (no randomness). Its
  prop differs from the one that \<^verbatim>\<open>FlatTerrainTask\<close> inserts, at the same placement, in
  three attributes only: half-extents \<open>[20, 1, 10]\<close> instead of \<open>[40, 1, 10]\<close>, friction
  \<open>0.05\<close> instead of \<open>0.5\<close>, and the colour \<open>[0.8, 0.9, 1.0]\<close>, which the flat terrain
  leaves unset.
\<close>

theorem frozen_lake_terrain:
  assumes kw: "kwargs_ok kw"
  shows "\<exists>t flat. FrozenLakeTask_init kw = Inr t \<and> FlatTerrainTask_init kw = Inr flat \<and>
     add_terrain gauss t sim =
       Inr (sim\<lparr>props := props sim @
              [(BoxProp \<lparr>shape = BOX, density = 0, friction = 0.05,
                         half_extents = [20, 1, 10], color = Some [0.8, 0.9, 1]\<rparr>,
                [0, - 1, 0], Quaterniond 1 0 0 0)]\<rparr>) \<and>
     add_terrain gauss flat sim =
       Inr (sim\<lparr>props := props sim @
              [(BoxProp \<lparr>shape = BOX, density = 0, friction = 0.5,
                         half_extents = [40, 1, 10], color = None\<rparr>,
                [0, - 1, 0], Quaterniond 1 0 0 0)]\<rparr>)"
proof -
  obtain b where b: "ForwardSpeedTask_init kw = Inr b"
    using ForwardSpeedTask_init_ok [OF kw] by blast
  then show ?thesis
    by (simp add: FrozenLakeTask_init_def FlatTerrainTask_init_def add_prop_def Prop_init_def
        identity_orientation_def)
qed

text \<open>
  An instance: a frozen lake constructed with \<^verbatim>\<open>force_std=5.0\<close>.
\<close>

theorem frozen_lake_terrain_witness:
  "kwargs_ok [(''force_std'', PyFloat 5)] \<and>
   (\<exists>t. FrozenLakeTask_init [(''force_std'', PyFloat 5)] = Inr t \<and>
      add_terrain sample_gauss t one_robot =
        Inr (one_robot\<lparr>props :=
               [(BoxProp \<lparr>shape = BOX, density = 0, friction = 0.05,
                          half_extents = [20, 1, 10], color = Some [0.8, 0.9, 1]\<rparr>,
                 [0, - 1, 0], Quaterniond 1 0 0 0)]\<rparr>))"
proof -
  have kw: "kwargs_ok [(''force_std'', PyFloat 5)]"
    by (simp add: kwargs_ok_def param_names_def)
  have e: "props one_robot = []" by (simp add: one_robot_def)
  show ?thesis
    using frozen_lake_terrain [OF kw, of sample_gauss one_robot] kw
    unfolding e by auto
qed

section \<open>The result bound\<close>

text \<open>
  Claim C9 says that every constructor accepts \<^verbatim>\<open>result_bound\<close>. No constructor
  declares it: the keyword reaches \<^verbatim>\<open>ForwardSpeedTask.__init__\<close>, which raises
  \<^verbatim>\<open>TypeError\<close>, even for the value 10.
\<close>

theorem result_bound_keyword_counterexample:
  "FlatTerrainTask_init [(''result_bound'', PyFloat 10)] = Inl TypeError \<and>
   HillTerrainTask_init sample_gauss 0 [(''result_bound'', PyFloat 10)] = Inl TypeError"
  by (simp add: FlatTerrainTask_init_def HillTerrainTask_init_def ForwardSpeedTask_init_def
      param_names_def)

text \<open>
  Claim C9, amended. \<^verbatim>\<open>result_bound\<close> is not a parameter: a constructor call that
  passes it fails with \<^verbatim>\<open>TypeError\<close>, and every task that is constructed has
  \<open>result_bound = 10\<close>. No operation reads it: \<^verbatim>\<open>add_noise\<close>, \<^verbatim>\<open>add_terrain\<close> and
  \<^verbatim>\<open>get_objective_fn\<close> give the same result, failures included, whatever value the
  attribute holds, and none of them takes a score.
\<close>

theorem result_bound_fixed:
  "(construct gauss c kw = Inr t \<longrightarrow>
      result_bound (base t) = 10 \<and> ''result_bound'' \<notin> fst ` set kw) \<and>
   (''result_bound'' \<in> fst ` set kw \<longrightarrow> construct gauss c kw = Inl TypeError) \<and>
   add_noise gauss (update_base (\<lambda>b. b\<lparr>result_bound := r\<rparr>) t') sim k =
     add_noise gauss t' sim k \<and>
   add_terrain gauss (update_base (\<lambda>b. b\<lparr>result_bound := r\<rparr>) t') sim =
     add_terrain gauss t' sim \<and>
   get_objective_fn (update_base (\<lambda>b. b\<lparr>result_bound := r\<rparr>) t') = get_objective_fn t'"
proof (intro conjI impI)
  assume c: "construct gauss c kw = Inr t"
  from ForwardSpeedTask_init_Inr [OF construct_base [OF c]]
  show "result_bound (base t) = 10" and "''result_bound'' \<notin> fst ` set kw"
    using result_bound_not_param [of kw] by blast+
next
  assume "''result_bound'' \<in> fst ` set kw"
  then show "construct gauss c kw = Inl TypeError"
    using construct_bad_kwargs [OF result_bound_not_param] by blast
next
  show "add_noise gauss (update_base (\<lambda>b. b\<lparr>result_bound := r\<rparr>) t') sim k =
     add_noise gauss t' sim k"
    by (rule add_noise_update_result_bound)
  show "add_terrain gauss (update_base (\<lambda>b. b\<lparr>result_bound := r\<rparr>) t') sim =
     add_terrain gauss t' sim"
    by (rule add_terrain_update_base)
  show "get_objective_fn (update_base (\<lambda>b. b\<lparr>result_bound := r\<rparr>) t') = get_objective_fn t'"
    by (simp add: get_objective_fn_def base_update_base)
qed

text \<open>
  Instances: a flat terrain with default parameters, and a ridged terrain called with
  \<^verbatim>\<open>result_bound=3.0\<close>.
\<close>

theorem result_bound_fixed_witness:
  "construct sample_gauss FlatCall [] = Inr (projr (FlatTerrainTask_init [])) \<and>
   result_bound (base (projr (FlatTerrainTask_init []))) = 10 \<and>
   ''result_bound'' \<in> fst ` set [(''result_bound'', PyFloat 3)] \<and>
   construct sample_gauss (RidgedCall 0) [(''result_bound'', PyFloat 3)] = Inl TypeError"
proof -
  have a: "construct sample_gauss FlatCall [] = Inr (projr (FlatTerrainTask_init []))"
    by (simp add: FlatTerrainTask_init_Nil)
  have b: "''result_bound'' \<in> fst ` set [(''result_bound'', PyFloat 3)]" by simp
  show ?thesis
    using a b
      result_bound_fixed [of sample_gauss FlatCall "[]" "projr (FlatTerrainTask_init [])"]
      result_bound_fixed [of sample_gauss "RidgedCall 0" "[(''result_bound'', PyFloat 3)]"]
    by blast
qed

end
